theory Spec2Isabelle
  imports Complex_Main
begin

section \<open>Python primitives used by the crawler\<close>

text \<open>
  Python strings are modelled as \<open>string\<close>; a \<open>char\<close> stands for a code point below 256.
  Python integers are unbounded and modelled as \<open>int\<close>.
\<close>

datatype error = ValueError | OSError

subsection \<open>Formatting an integer: \<^verbatim>\<open>f"{n:06d}"\<close> and \<^verbatim>\<open>f"{i:02d}"\<close>\<close>

definition digit_char :: "nat \<Rightarrow> char" where
  "digit_char d = char_of (48 + d)"

fun dec :: "nat \<Rightarrow> string" where
  "dec n = (if n < 10 then [digit_char n] else dec (n div 10) @ [digit_char (n mod 10)])"

declare dec.simps [simp del]

definition zfill :: "nat \<Rightarrow> string \<Rightarrow> string" where
  "zfill w s = replicate (w - length s) (CHR ''0'') @ s"

text \<open>
  The format specification \<open>0wd\<close>: sign-aware zero padding to a minimum width \<open>w\<close>;
  a value with more digits is never truncated.
\<close>

definition format_0d :: "nat \<Rightarrow> int \<Rightarrow> string" where
  "format_0d w n =
     (if n < 0 then CHR ''-'' # zfill (w - 1) (dec (nat (- n))) else zfill w (dec (nat n)))"

subsection \<open>Parsing an integer: \<^verbatim>\<open>int(s)\<close>\<close>

text \<open>
  \<^verbatim>\<open>int(s)\<close> in base 10 strips surrounding whitespace, accepts one optional sign and
  then requires decimal digits, where single underscores may separate digits. Anything
  else raises \<^verbatim>\<open>ValueError\<close>. Below code point 256 the whitespace characters the
  conversion strips are 9 to 13, 32, 133 and 160, and the only decimal digits are
  \<open>0\<close> to \<open>9\<close>.
\<close>

definition py_isspace :: "char \<Rightarrow> bool" where
  "py_isspace c = (let k = (of_char c :: nat) in (9 \<le> k \<and> k \<le> 13) \<or> k = 32 \<or> k = 133 \<or> k = 160)"

definition is_digit :: "char \<Rightarrow> bool" where
  "is_digit c = (let k = (of_char c :: nat) in 48 \<le> k \<and> k \<le> 57)"

definition digit_val :: "char \<Rightarrow> int" where
  "digit_val c = int (of_char c) - 48"

text \<open>
  \<open>py_digits acc prev cs\<close> reads the digit run; \<open>prev\<close> says that the previous
  character was a digit. It returns the value and the unread rest.
\<close>

fun py_digits :: "int \<Rightarrow> bool \<Rightarrow> string \<Rightarrow> (int \<times> string) option" where
  "py_digits acc prev [] = (if prev then Some (acc, []) else None)"
| "py_digits acc prev (c # cs) =
     (if is_digit c then py_digits (10 * acc + digit_val c) True cs
      else if c = CHR ''_'' then (if prev then py_digits acc False cs else None)
      else if prev then Some (acc, c # cs) else None)"

definition py_int :: "string \<Rightarrow> error + int" where
  "py_int s =
     (let s1 = dropWhile py_isspace s;
          neg = (s1 \<noteq> [] \<and> hd s1 = CHR ''-'');
          s2 = (if s1 \<noteq> [] \<and> (hd s1 = CHR ''-'' \<or> hd s1 = CHR ''+'') then tl s1 else s1)
      in case py_digits 0 False s2 of
           None \<Rightarrow> Inl ValueError
         | Some (v, rest) \<Rightarrow>
             if dropWhile py_isspace rest = [] then Inr (if neg then - v else v)
             else Inl ValueError)"

section \<open>Configuration (\<^verbatim>\<open>src/config.py\<close>)\<close>

record registration_config =
  cfg_council_codes :: "string list"
  cfg_student_number_min :: int
  cfg_student_number_max :: int
  cfg_total_length :: int

definition Config_registration :: registration_config where
  "Config_registration =
     \<lparr>cfg_council_codes = map (format_0d 2) [1..65],
      cfg_student_number_min = 1,
      cfg_student_number_max = 999999,
      cfg_total_length = 8\<rparr>"

definition Config_crawler_batch_size :: int where
  "Config_crawler_batch_size = 1000"

section \<open>Registration number generator (\<^verbatim>\<open>src/registration_number_generator.py\<close>)\<close>

record generator =
  council_codes :: "string list"
  student_number_min :: int
  student_number_max :: int

text \<open>The constructor reads the three fields from the configuration.\<close>

definition RegistrationNumberGenerator :: generator where
  "RegistrationNumberGenerator =
     \<lparr>council_codes = cfg_council_codes Config_registration,
      student_number_min = cfg_student_number_min Config_registration,
      student_number_max = cfg_student_number_max Config_registration\<rparr>"

text \<open>\<^verbatim>\<open>generate_single\<close> formats and concatenates; it has no check and no raise.\<close>

definition generate_single :: "generator \<Rightarrow> string \<Rightarrow> int \<Rightarrow> string" where
  "generate_single g council_code student_number =
     (let padded_student_number = format_0d 6 student_number
      in council_code @ padded_student_number)"

definition generate_for_council :: "generator \<Rightarrow> string \<Rightarrow> string list" where
  "generate_for_council g council_code =
     map (generate_single g council_code) [student_number_min g .. student_number_max g]"

definition generate_all :: "generator \<Rightarrow> string list" where
  "generate_all g = concat (map (generate_for_council g) (council_codes g))"

text \<open>
  The inner loop of \<^verbatim>\<open>generate_batches\<close> for one council: \<open>batch\<close> is the list being
  filled, the result is the list of batches yielded, in order. The batch is yielded when
  its length equals \<open>batch_size\<close>; what is left after the loop is yielded if not empty.
\<close>

fun batch_loop :: "generator \<Rightarrow> int \<Rightarrow> string \<Rightarrow> int list \<Rightarrow> string list \<Rightarrow> string list list" where
  "batch_loop g batch_size council_code [] batch = (if batch \<noteq> [] then [batch] else [])"
| "batch_loop g batch_size council_code (i # is) batch =
     (let batch' = batch @ [generate_single g council_code i]
      in if int (length batch') = batch_size
         then batch' # batch_loop g batch_size council_code is []
         else batch_loop g batch_size council_code is batch')"

text \<open>The body of the outer loop: \<open>batch\<close> starts empty for every council.\<close>

definition council_batches :: "generator \<Rightarrow> int \<Rightarrow> string \<Rightarrow> string list list" where
  "council_batches g batch_size council_code =
     batch_loop g batch_size council_code [student_number_min g .. student_number_max g] []"

definition generate_batches :: "generator \<Rightarrow> int option \<Rightarrow> string list list" where
  "generate_batches g batch_size_arg =
     (let batch_size = (case batch_size_arg of None \<Rightarrow> Config_crawler_batch_size | Some b \<Rightarrow> b)
      in concat (map (council_batches g batch_size) (council_codes g)))"

definition is_valid_format :: "generator \<Rightarrow> string \<Rightarrow> bool" where
  "is_valid_format g registration_number =
     (if registration_number = [] \<or> length registration_number \<noteq> 8 then False
      else let council_code = take 2 registration_number;
               student_number = drop 2 registration_number
           in if council_code \<notin> set (council_codes g) then False
              else case py_int student_number of
                     Inl e \<Rightarrow> False
                   | Inr student_num \<Rightarrow>
                       if student_num < student_number_min g \<or> student_num > student_number_max g
                       then False else True)"

record parsed =
  p_council_code :: string
  p_student_number :: int
  p_full :: string

definition parse :: "generator \<Rightarrow> string \<Rightarrow> error + parsed" where
  "parse g registration_number =
     (if \<not> is_valid_format g registration_number then Inl ValueError
      else case py_int (drop 2 registration_number) of
             Inl e \<Rightarrow> Inl e
           | Inr n \<Rightarrow> Inr \<lparr>p_council_code = take 2 registration_number,
                          p_student_number = n,
                          p_full = registration_number\<rparr>)"

definition get_total_count :: "generator \<Rightarrow> int" where
  "get_total_count g =
     int (length (council_codes g)) * (student_number_max g - student_number_min g + 1)"

subsection \<open>Auxiliary definitions for the generator properties\<close>

text \<open>The value of a digit string read from the left, used to state what \<open>py_digits\<close> computes.\<close>

definition digits_value :: "int \<Rightarrow> string \<Rightarrow> int" where
  "digits_value acc ds = foldl (\<lambda>a c. 10 * a + digit_val c) acc ds"

text \<open>
  The contract of \<open>singleIdentifier\<close> as the specification words it: a checked
  constructor. It is compared with \<open>generate_single\<close> below.
\<close>

datatype spec_error = InvalidArgument | MalformedIdentifier

definition singleIdentifier_spec :: "generator \<Rightarrow> string \<Rightarrow> int \<Rightarrow> spec_error + string" where
  "singleIdentifier_spec g region sequence =
     (if region \<notin> set (council_codes g) \<or> sequence < student_number_min g \<or> sequence > student_number_max g
      then Inl InvalidArgument
      else Inr (region @ format_0d 6 sequence))"

section \<open>Skip manager (\<^verbatim>\<open>src/crawler_skip_manager.py\<close>)\<close>

text \<open>\<^verbatim>\<open>str(n)\<close>, as the f-string \<^verbatim>\<open>f"{council_code}_{student_number}"\<close> formats the number.\<close>

definition py_str :: "int \<Rightarrow> string" where
  "py_str n = (if n < 0 then CHR ''-'' # dec (nat (- n)) else dec (nat n))"

record skip_range =
  sr_start :: int
  sr_end :: int
  sr_reason :: string
  sr_added_at :: string

text \<open>
  The object holds the three persisted structures, the runtime counters and the threshold.
  The three fields \<open>file_\<close>\dots are the contents of the JSON files under \<^verbatim>\<open>data/\<close>
  (\<open>None\<close>: no readable file). Calls of the logger change none of this and are left out.
\<close>

record skip_manager =
  skip_ranges :: "string \<rightharpoonup> skip_range list"
  council_limits :: "string \<rightharpoonup> int"
  invalid_patterns :: "string set"
  consecutive_failures :: "string \<rightharpoonup> int"
  last_valid_number :: "string \<rightharpoonup> int"
  failure_threshold :: int
  file_skip_ranges :: "(string \<rightharpoonup> skip_range list) option"
  file_council_limits :: "(string \<rightharpoonup> int) option"
  file_invalid_patterns :: "string set option"

text \<open>
  The constructor loads each file on its own; a missing or unreadable file gives the
  empty structure. The counters start empty and the threshold is 100.
\<close>

definition CrawlerSkipManager ::
  "(string \<rightharpoonup> skip_range list) option \<Rightarrow> (string \<rightharpoonup> int) option \<Rightarrow> string set option \<Rightarrow> skip_manager" where
  "CrawlerSkipManager f_ranges f_limits f_invalid =
     \<lparr>skip_ranges = (case f_ranges of None \<Rightarrow> Map.empty | Some d \<Rightarrow> d),
      council_limits = (case f_limits of None \<Rightarrow> Map.empty | Some d \<Rightarrow> d),
      invalid_patterns = (case f_invalid of None \<Rightarrow> {} | Some d \<Rightarrow> d),
      consecutive_failures = Map.empty,
      last_valid_number = Map.empty,
      failure_threshold = 100,
      file_skip_ranges = f_ranges,
      file_council_limits = f_limits,
      file_invalid_patterns = f_invalid\<rparr>"

text \<open>
  A method that can raise returns the exception (or \<open>Inr\<close> for a normal return) together
  with the object as the call leaves it: what was assigned before the raise stays assigned.

  The three save methods create the directory, open the file with mode \<^verbatim>\<open>"w"\<close>, which
  empties it, and dump the JSON document; they have no exception handler. What the file
  system does to one save is an argument: the write succeeds; or it fails before the file
  is opened and the file stays as it was; or it fails after the file was opened and what
  is left is an emptied or partial file, which no later load can read. Both failures raise
  \<^verbatim>\<open>OSError\<close>.
\<close>

datatype write_result = WriteOk | WriteFailsBeforeOpen | WriteFailsAfterOpen

definition save_skip_ranges :: "write_result \<Rightarrow> skip_manager \<Rightarrow> (error + unit) \<times> skip_manager" where
  "save_skip_ranges io s =
     (case io of
        WriteOk \<Rightarrow> (Inr (), s\<lparr>file_skip_ranges := Some (skip_ranges s)\<rparr>)
      | WriteFailsBeforeOpen \<Rightarrow> (Inl OSError, s)
      | WriteFailsAfterOpen \<Rightarrow> (Inl OSError, s\<lparr>file_skip_ranges := None\<rparr>))"

definition save_council_limits :: "write_result \<Rightarrow> skip_manager \<Rightarrow> (error + unit) \<times> skip_manager" where
  "save_council_limits io s =
     (case io of
        WriteOk \<Rightarrow> (Inr (), s\<lparr>file_council_limits := Some (council_limits s)\<rparr>)
      | WriteFailsBeforeOpen \<Rightarrow> (Inl OSError, s)
      | WriteFailsAfterOpen \<Rightarrow> (Inl OSError, s\<lparr>file_council_limits := None\<rparr>))"

definition save_invalid_patterns :: "write_result \<Rightarrow> skip_manager \<Rightarrow> (error + unit) \<times> skip_manager" where
  "save_invalid_patterns io s =
     (case io of
        WriteOk \<Rightarrow> (Inr (), s\<lparr>file_invalid_patterns := Some (invalid_patterns s)\<rparr>)
      | WriteFailsBeforeOpen \<Rightarrow> (Inl OSError, s)
      | WriteFailsAfterOpen \<Rightarrow> (Inl OSError, s\<lparr>file_invalid_patterns := None\<rparr>))"

definition should_skip :: "skip_manager \<Rightarrow> string \<Rightarrow> error + bool" where
  "should_skip s registration_number =
     (let council_code = take 2 registration_number
      in case py_int (drop 2 registration_number) of
           Inl e \<Rightarrow> Inl e
         | Inr student_number \<Rightarrow>
             if (case council_limits s council_code of
                   None \<Rightarrow> False
                 | Some limit \<Rightarrow> student_number > limit) then Inr True
             else if (case skip_ranges s council_code of
                        None \<Rightarrow> False
                      | Some ranges \<Rightarrow>
                          list_ex (\<lambda>skip_range. sr_start skip_range \<le> student_number
                                             \<and> student_number \<le> sr_end skip_range) ranges)
                  then Inr True
             else if registration_number \<in> invalid_patterns s then Inr True
             else Inr False)"

text \<open>
  \<^verbatim>\<open>add_skip_range\<close>: the list of the council (empty if the council has none yet) gets
  the new range appended, then the file is written; \<open>io\<close> is what the file system does
  to that write. \<open>added_at\<close> is the string the
  source reads from the file system.
\<close>

definition add_skip_range ::
  "string \<Rightarrow> write_result \<Rightarrow> string \<Rightarrow> int \<Rightarrow> int \<Rightarrow> string \<Rightarrow> skip_manager \<Rightarrow> (error + unit) \<times> skip_manager" where
  "add_skip_range added_at io council_code start_student end_student reason s =
     (let ranges = (case skip_ranges s council_code of None \<Rightarrow> [] | Some rs \<Rightarrow> rs);
          s' = s\<lparr>skip_ranges := (skip_ranges s)(council_code \<mapsto>
                   ranges @ [\<lparr>sr_start = start_student, sr_end = end_student,
                              sr_reason = reason, sr_added_at = added_at\<rparr>])\<rparr>
      in save_skip_ranges io s')"

definition failure_key :: "string \<Rightarrow> int \<Rightarrow> string" where
  "failure_key council_code student_number = council_code @ ''_'' @ py_str student_number"

definition failure_count :: "skip_manager \<Rightarrow> string \<Rightarrow> int" where
  "failure_count s key = (case consecutive_failures s key of None \<Rightarrow> 0 | Some c \<Rightarrow> c)"

definition record_failure ::
  "string \<Rightarrow> write_result \<Rightarrow> string \<Rightarrow> string \<Rightarrow> skip_manager \<Rightarrow> (error + unit) \<times> skip_manager" where
  "record_failure added_at io registration_number error_type s =
     (let council_code = take 2 registration_number
      in case py_int (drop 2 registration_number) of
           Inl e \<Rightarrow> (Inl e, s)
         | Inr student_number \<Rightarrow>
             let key = failure_key council_code student_number;
                 s1 = s\<lparr>consecutive_failures :=
                          (consecutive_failures s)(key \<mapsto> failure_count s key + 1)\<rparr>;
                 s2 = s1\<lparr>invalid_patterns := insert registration_number (invalid_patterns s1)\<rparr>
             in if failure_count s2 key \<ge> failure_threshold s2
                then add_skip_range added_at io council_code student_number
                       (student_number + 1000) ''consecutive_failures'' s2
                else (Inr (), s2))"

definition record_success :: "string \<Rightarrow> skip_manager \<Rightarrow> (error + unit) \<times> skip_manager" where
  "record_success registration_number s =
     (let council_code = take 2 registration_number
      in case py_int (drop 2 registration_number) of
           Inl e \<Rightarrow> (Inl e, s)
         | Inr student_number \<Rightarrow>
             let s1 = s\<lparr>last_valid_number := (last_valid_number s)(council_code \<mapsto>
                          max (case last_valid_number s council_code of None \<Rightarrow> 0 | Some v \<Rightarrow> v)
                              student_number)\<rparr>;
                 key = failure_key council_code student_number
             in (Inr (), s1\<lparr>consecutive_failures := (consecutive_failures s1)(key \<mapsto> 0)\<rparr>))"

text \<open>
  \<^verbatim>\<open>set_council_limit\<close>: the default of the lookup is \<^verbatim>\<open>float("inf")\<close>, below which
  every integer lies.
\<close>

definition set_council_limit :: "write_result \<Rightarrow> string \<Rightarrow> int \<Rightarrow> skip_manager \<Rightarrow> (error + unit) \<times> skip_manager" where
  "set_council_limit io council_code max_student_number s =
     (if (case council_limits s council_code of
            None \<Rightarrow> True
          | Some current_limit \<Rightarrow> max_student_number < current_limit)
      then save_council_limits io
             (s\<lparr>council_limits := (council_limits s)(council_code \<mapsto> max_student_number)\<rparr>)
      else (Inr (), s))"

definition save_all ::
  "write_result \<Rightarrow> write_result \<Rightarrow> write_result \<Rightarrow> skip_manager \<Rightarrow> (error + unit) \<times> skip_manager" where
  "save_all io_ranges io_limits io_invalid s =
     (case save_skip_ranges io_ranges s of
        (Inl e, s1) \<Rightarrow> (Inl e, s1)
      | (Inr u, s1) \<Rightarrow>
          (case save_council_limits io_limits s1 of
             (Inl e, s2) \<Rightarrow> (Inl e, s2)
           | (Inr u, s2) \<Rightarrow> save_invalid_patterns io_invalid s2))"

text \<open>A caller that invokes \<^verbatim>\<open>record_failure\<close> repeatedly and stops at the first exception.\<close>

fun record_failure_times ::
  "nat \<Rightarrow> string \<Rightarrow> write_result \<Rightarrow> string \<Rightarrow> string \<Rightarrow> skip_manager \<Rightarrow> (error + unit) \<times> skip_manager" where
  "record_failure_times 0 added_at io registration_number error_type s = (Inr (), s)"
| "record_failure_times (Suc k) added_at io registration_number error_type s =
     (case record_failure added_at io registration_number error_type s of
        (Inl e, s') \<Rightarrow> (Inl e, s')
      | (Inr u, s') \<Rightarrow> record_failure_times k added_at io registration_number error_type s')"

text \<open>The sequence numbers a range covers: the test of \<open>should_skip\<close> on one range.\<close>

definition covers :: "skip_range \<Rightarrow> int \<Rightarrow> bool" where
  "covers r n = (sr_start r \<le> n \<and> n \<le> sr_end r)"

text \<open>The object after a failure of \<open>registration_number\<close> has been counted, before any promotion.\<close>

definition counted :: "skip_manager \<Rightarrow> string \<Rightarrow> string \<Rightarrow> int \<Rightarrow> skip_manager" where
  "counted s key registration_number c =
     s\<lparr>consecutive_failures := (consecutive_failures s)(key \<mapsto> c),
       invalid_patterns := insert registration_number (invalid_patterns s)\<rparr>"

text \<open>The range that \<^verbatim>\<open>record_failure\<close> passes to \<^verbatim>\<open>add_skip_range\<close>.\<close>

definition promoted_range :: "string \<Rightarrow> int \<Rightarrow> skip_range" where
  "promoted_range added_at student_number =
     \<lparr>sr_start = student_number, sr_end = student_number + 1000,
      sr_reason = ''consecutive_failures'', sr_added_at = added_at\<rparr>"

definition ranges_of :: "skip_manager \<Rightarrow> string \<Rightarrow> skip_range list" where
  "ranges_of s council_code = (case skip_ranges s council_code of None \<Rightarrow> [] | Some rs \<Rightarrow> rs)"

section \<open>Results saver (\<^verbatim>\<open>src/results_saver.py\<close>)\<close>

text \<open>
  The statistics block that \<^verbatim>\<open>save_summary\<close> writes to the summary file. The success
  rate is in percent, before it is rounded to one decimal for display; the quotient of
  the two integers is taken exactly, as a rational number.
\<close>

record summary =
  sm_total_processed :: int
  sm_successful :: int
  sm_failed :: int
  sm_success_rate :: rat

text \<open>
  The saver keeps the list of results and its own statistics. \<open>saved_results\<close> and
  \<open>summary_file\<close> stand for the content of the result files and of the summary file
  after the last \<^verbatim>\<open>save_all\<close>. Both crawlers call \<^verbatim>\<open>add_result\<close> with a non-empty
  result only, so the test \<^verbatim>\<open>if result\<close> holds.
\<close>

record 'r results_saver =
  rs_results :: "'r list"
  rs_total_processed :: int
  rs_successful :: int
  rs_failed :: int
  saved_results :: "'r list"
  summary_file :: "summary option"

definition ResultsSaver :: "'r results_saver" where
  "ResultsSaver = \<lparr>rs_results = [], rs_total_processed = 0, rs_successful = 0, rs_failed = 0,
                    saved_results = [], summary_file = None\<rparr>"

definition add_result :: "'r \<Rightarrow> 'r results_saver \<Rightarrow> 'r results_saver" where
  "add_result result rs =
     rs\<lparr>rs_results := rs_results rs @ [result],
        rs_successful := rs_successful rs + 1,
        rs_total_processed := rs_total_processed rs + 1\<rparr>"

text \<open>
  \<^verbatim>\<open>save_summary\<close> sets the failed count, then writes the statistics with the success
  rate computed from the saver's own counters.
\<close>

definition save_summary :: "'r results_saver \<Rightarrow> 'r results_saver" where
  "save_summary rs =
     (let rs1 = rs\<lparr>rs_failed := rs_total_processed rs - rs_successful rs\<rparr>
      in rs1\<lparr>summary_file := Some
            \<lparr>sm_total_processed = rs_total_processed rs1,
             sm_successful = rs_successful rs1,
             sm_failed = rs_failed rs1,
             sm_success_rate =
               (of_int (rs_successful rs1) / of_int (max 1 (rs_total_processed rs1))) * 100\<rparr>\<rparr>)"

definition results_save_all :: "'r results_saver \<Rightarrow> 'r results_saver" where
  "results_save_all rs = save_summary (rs\<lparr>saved_results := rs_results rs\<rparr>)"

section \<open>Single-probe crawler (\<^verbatim>\<open>main.py\<close>)\<close>

text \<open>
  One attempt of \<^verbatim>\<open>scraper.scrape_registration_number\<close>: it returns a non-empty result,
  returns a falsy value, or raises (a failure to get a scraper from the pool included).
\<close>

datatype 'r scrape_outcome = Found 'r | NotFound | Raised

text \<open>
  The three values \<^verbatim>\<open>crawl_registration_number\<close> returns: \<^verbatim>\<open>False\<close> for a skipped
  number, the result, and \<^verbatim>\<open>None\<close>. Only the result is truthy.
\<close>

datatype 'r crawl_result = Skipped | Data 'r | Nothing

text \<open>
  The environment of a run: what the scraper does at each attempt for each number, what
  the file system does to a write of the skip manager, and the string stored as
  \<open>added_at\<close>.
\<close>

record 'r environment =
  scrape :: "string \<Rightarrow> nat \<Rightarrow> 'r scrape_outcome"
  disk_write :: write_result
  added_at :: string

definition max_retries :: nat where
  "max_retries = 2"

text \<open>The last branch of the exception handler: record the failure and return \<^verbatim>\<open>None\<close>.\<close>

definition last_attempt_failed ::
  "'r environment \<Rightarrow> string \<Rightarrow> skip_manager \<Rightarrow> (error + 'r crawl_result) \<times> skip_manager" where
  "last_attempt_failed env registration_number s =
     (case record_failure (added_at env) (disk_write env) registration_number ''error'' s of
        (Inl e, s') \<Rightarrow> (Inl e, s')
      | (Inr u, s') \<Rightarrow> (Inr Nothing, s'))"

text \<open>
  The retry loop \<^verbatim>\<open>for attempt in range(max_retries)\<close>. Every exception raised inside the
  \<^verbatim>\<open>try\<close> block, those of the skip manager included, goes to the handler, which retries
  or, at the last attempt, records the failure outside any handler.
\<close>

fun crawl_attempts ::
  "'r environment \<Rightarrow> string \<Rightarrow> nat list \<Rightarrow> skip_manager \<Rightarrow> (error + 'r crawl_result) \<times> skip_manager" where
  "crawl_attempts env registration_number [] s = (Inr Nothing, s)"
| "crawl_attempts env registration_number (attempt # rest) s =
     (case scrape env registration_number attempt of
        Found result \<Rightarrow>
          (case record_success registration_number s of
             (Inr u, s') \<Rightarrow> (Inr (Data result), s')
           | (Inl e, s') \<Rightarrow>
               if attempt < max_retries - 1 then crawl_attempts env registration_number rest s'
               else last_attempt_failed env registration_number s')
      | NotFound \<Rightarrow>
          (case record_failure (added_at env) (disk_write env) registration_number ''not_found'' s of
             (Inr u, s') \<Rightarrow> (Inr Nothing, s')
           | (Inl e, s') \<Rightarrow>
               if attempt < max_retries - 1 then crawl_attempts env registration_number rest s'
               else last_attempt_failed env registration_number s')
      | Raised \<Rightarrow>
          if attempt < max_retries - 1 then crawl_attempts env registration_number rest s
          else last_attempt_failed env registration_number s)"

definition crawl_registration_number ::
  "'r environment \<Rightarrow> string \<Rightarrow> skip_manager \<Rightarrow> (error + 'r crawl_result) \<times> skip_manager" where
  "crawl_registration_number env registration_number s =
     (case should_skip s registration_number of
        Inl e \<Rightarrow> (Inl e, s)
      | Inr True \<Rightarrow> (Inr Skipped, s)
      | Inr False \<Rightarrow> crawl_attempts env registration_number [0..<max_retries] s)"

text \<open>
  The local variables of \<^verbatim>\<open>main\<close>: the objects, the totals, and the three variables
  of the council being crawled.
\<close>

record 'r main_state =
  skip_manager :: skip_manager
  results_saver :: "'r results_saver"
  total_processed :: int
  total_successful :: int
  total_failed :: int
  total_skipped :: int
  last_save_count :: int
  cur_consecutive_failures :: int
  cur_student_number :: int
  cur_council_successful :: int

definition main_init :: "skip_manager \<Rightarrow> 'r results_saver \<Rightarrow> 'r main_state" where
  "main_init sm rs =
     \<lparr>skip_manager = sm, results_saver = rs,
      total_processed = 0, total_successful = 0, total_failed = 0, total_skipped = 0,
      last_save_count = 0,
      cur_consecutive_failures = 0, cur_student_number = 1, cur_council_successful = 0\<rparr>"

text \<open>The branch \<^verbatim>\<open>if result:\<close> of the loop body, with the save every 100 successes.\<close>

definition on_success :: "'r \<Rightarrow> 'r main_state \<Rightarrow> 'r main_state" where
  "on_success result st =
     (let st1 = st\<lparr>cur_council_successful := cur_council_successful st + 1,
                   cur_consecutive_failures := 0,
                   results_saver := add_result result (results_saver st),
                   total_successful := total_successful st + 1\<rparr>
      in if total_successful st1 - last_save_count st1 \<ge> 100
         then st1\<lparr>results_saver := results_save_all (results_saver st1),
                  last_save_count := total_successful st1\<rparr>
         else st1)"

text \<open>The branch \<^verbatim>\<open>else:\<close> of the loop body.\<close>

definition on_falsy :: "'r main_state \<Rightarrow> 'r main_state" where
  "on_falsy st =
     st\<lparr>cur_consecutive_failures := cur_consecutive_failures st + 1,
        total_failed := total_failed st + 1\<rparr>"

text \<open>
  One iteration of \<^verbatim>\<open>while consecutive_failures < 10\<close>. An exception that escapes
  \<^verbatim>\<open>crawl_registration_number\<close> leaves the loop and ends the run.
\<close>

definition council_step :: "'r environment \<Rightarrow> string \<Rightarrow> 'r main_state \<Rightarrow> error + 'r main_state" where
  "council_step env council_code st =
     (let registration_number = council_code @ format_0d 6 (cur_student_number st)
      in case crawl_registration_number env registration_number (skip_manager st) of
           (Inl e, sm) \<Rightarrow> Inl e
         | (Inr result, sm) \<Rightarrow>
             let st1 = st\<lparr>skip_manager := sm\<rparr>;
                 st2 = (case result of
                          Data r \<Rightarrow> on_success r st1
                        | Skipped \<Rightarrow> on_falsy st1
                        | Nothing \<Rightarrow> on_falsy st1)
             in Inr (st2\<lparr>total_processed := total_processed st2 + 1,
                         cur_student_number := cur_student_number st2 + 1\<rparr>))"








section \<open>Batched crawler (\<^verbatim>\<open>main_enhanced.py\<close>)\<close>

text \<open>A result of the API: the registration number it is for, and the rest of the record.\<close>

record 'p api_result =
  ar_registration_number :: string
  ar_data :: 'p

text \<open>
  The environment of a batched run: what \<^verbatim>\<open>fetch_batch\<close> returns (or that it raises) for
  a list of numbers, what the file system does to a write of the skip manager, and the
  \<open>added_at\<close> string.
\<close>

record 'p api_environment =
  fetch_batch :: "string list \<Rightarrow> error + 'p api_result list"
  api_write :: write_result
  api_added_at :: string

text \<open>
  The object \<^verbatim>\<open>ApiCrawler\<close>: skip manager, results saver, whether the scraper has been
  initialised, and the statistics. \<open>fetch_log\<close> lists the batches sent to the backend.
\<close>

record 'p api_crawler =
  ac_skip_manager :: skip_manager
  ac_results_saver :: "'p api_result results_saver"
  api_scraper :: bool
  st_total_processed :: int
  st_total_successful :: int
  st_total_failed :: int
  st_last_save_count :: int
  fetch_log :: "string list list"

text \<open>
  The list comprehension that keeps the numbers not to skip; \<open>should_skip\<close> may raise, and
  the comprehension stands before the \<^verbatim>\<open>try\<close>.
\<close>

fun valid_numbers_of :: "skip_manager \<Rightarrow> string list \<Rightarrow> error + string list" where
  "valid_numbers_of s [] = Inr []"
| "valid_numbers_of s (num # nums) =
     (case should_skip s num of
        Inl e \<Rightarrow> Inl e
      | Inr skip \<Rightarrow>
          (case valid_numbers_of s nums of
             Inl e \<Rightarrow> Inl e
           | Inr rest \<Rightarrow> Inr (if skip then rest else num # rest)))"

text \<open>The loop that records a success or a failure for every number sent.\<close>

fun record_results ::
  "'p api_environment \<Rightarrow> string set \<Rightarrow> string list \<Rightarrow> skip_manager \<Rightarrow> (error + unit) \<times> skip_manager" where
  "record_results env found_numbers [] s = (Inr (), s)"
| "record_results env found_numbers (num # nums) s =
     (case (if num \<in> found_numbers then record_success num s
            else record_failure (api_added_at env) (api_write env) num ''not_found'' s) of
        (Inl e, s') \<Rightarrow> (Inl e, s')
      | (Inr u, s') \<Rightarrow> record_results env found_numbers nums s')"

text \<open>
  \<^verbatim>\<open>crawl_batch_api\<close>. Whatever is raised inside the \<^verbatim>\<open>try\<close> is logged and answered
  with the empty list; the object keeps what was assigned before.
\<close>

definition crawl_batch_api ::
  "'p api_environment \<Rightarrow> string list \<Rightarrow> 'p api_crawler \<Rightarrow> (error + 'p api_result list) \<times> 'p api_crawler" where
  "crawl_batch_api env registration_numbers c =
     (if \<not> api_scraper c then (Inr [], c)
      else case valid_numbers_of (ac_skip_manager c) registration_numbers of
             Inl e \<Rightarrow> (Inl e, c)
           | Inr valid_numbers \<Rightarrow>
               if valid_numbers = [] then (Inr [], c)
               else let c1 = c\<lparr>fetch_log := fetch_log c @ [valid_numbers]\<rparr>
                    in case fetch_batch env valid_numbers of
                         Inl e \<Rightarrow> (Inr [], c1)
                       | Inr results \<Rightarrow>
                           let found_numbers = set (map ar_registration_number results)
                           in case record_results env found_numbers valid_numbers (ac_skip_manager c1) of
                                (Inl e, s') \<Rightarrow> (Inr [], c1\<lparr>ac_skip_manager := s'\<rparr>)
                              | (Inr u, s') \<Rightarrow> (Inr results, c1\<lparr>ac_skip_manager := s'\<rparr>))"

text \<open>The local variables of \<^verbatim>\<open>crawl_council_fast\<close>, with the object.\<close>

record 'p fast_state =
  crawler :: "'p api_crawler"
  f_consecutive_failures :: int
  f_student_number :: int
  f_council_successful :: int

text \<open>
  The loop that creates the batch: \<open>k\<close> iterations are left and \<open>failures\<close> is the
  value of \<^verbatim>\<open>consecutive_failures\<close>; the loop stops early when that has reached 1000. It returns the batch and the next student number.
\<close>

fun create_batch :: "string \<Rightarrow> int \<Rightarrow> int \<Rightarrow> nat \<Rightarrow> string list \<times> int" where
  "create_batch council_code failures student_number 0 = ([], student_number)"
| "create_batch council_code failures student_number (Suc k) =
     (if failures \<ge> 1000 then ([], student_number)
      else let (batch, next_number) =
                 create_batch council_code failures (student_number + 1) k
           in ((council_code @ format_0d 6 student_number) # batch, next_number))"

definition fast_batch_size :: nat where
  "fast_batch_size = 100"

text \<open>The loop over the results: each is added to the saver and counted.\<close>

definition add_results :: "'p api_result list \<Rightarrow> 'p api_crawler \<Rightarrow> 'p api_crawler" where
  "add_results rs c =
     foldl (\<lambda>c result. c\<lparr>ac_results_saver := add_result result (ac_results_saver c),
                         st_total_successful := st_total_successful c + 1\<rparr>) c rs"

definition auto_save :: "'p api_crawler \<Rightarrow> 'p api_crawler" where
  "auto_save c =
     (if st_total_successful c - st_last_save_count c \<ge> 10000
      then c\<lparr>ac_results_saver := results_save_all (ac_results_saver c),
             st_last_save_count := st_total_successful c\<rparr>
      else c)"

datatype 'a iteration = Continue 'a | Break 'a

text \<open>One iteration of \<^verbatim>\<open>while consecutive_failures < 1000\<close>.\<close>

definition fast_step ::
  "'p api_environment \<Rightarrow> string \<Rightarrow> 'p fast_state \<Rightarrow> error + 'p fast_state iteration" where
  "fast_step env council_code fs =
     (let (batch, next_number) =
            create_batch council_code (f_consecutive_failures fs) (f_student_number fs) fast_batch_size;
          fs1 = fs\<lparr>f_student_number := next_number\<rparr>
      in if batch = [] then Inr (Break fs1)
         else case crawl_batch_api env batch (crawler fs1) of
                (Inl e, c) \<Rightarrow> Inl e
              | (Inr results, c) \<Rightarrow>
                  let fs2 =
                        (if results \<noteq> []
                         then fs1\<lparr>f_consecutive_failures := 0,
                                  f_council_successful := f_council_successful fs1 + int (length results),
                                  crawler := add_results results c\<rparr>
                         else fs1\<lparr>f_consecutive_failures := f_consecutive_failures fs1 + int (length batch),
                                  crawler := c\<lparr>st_total_failed := st_total_failed c + int (length batch)\<rparr>\<rparr>);
                      c2 = crawler fs2;
                      c3 = c2\<lparr>st_total_processed := st_total_processed c2 + int (length batch)\<rparr>
                  in Inr (Continue (fs2\<lparr>crawler := auto_save c3\<rparr>)))"

fun fast_loop ::
  "nat \<Rightarrow> 'p api_environment \<Rightarrow> string \<Rightarrow> 'p fast_state \<Rightarrow> (error + 'p fast_state) option" where
  "fast_loop 0 env council_code fs = None"
| "fast_loop (Suc fuel) env council_code fs =
     (if f_consecutive_failures fs < 1000
      then case fast_step env council_code fs of
             Inl e \<Rightarrow> Some (Inl e)
           | Inr (Break fs') \<Rightarrow> Some (Inr fs')
           | Inr (Continue fs') \<Rightarrow> fast_loop fuel env council_code fs'
      else Some (Inr fs))"

definition crawl_council_fast ::
  "nat \<Rightarrow> 'p api_environment \<Rightarrow> string \<Rightarrow> int \<Rightarrow> 'p api_crawler \<Rightarrow> (error + int \<times> 'p api_crawler) option" where
  "crawl_council_fast fuel env council_code start_number c =
     (case fast_loop fuel env council_code
             \<lparr>crawler = c, f_consecutive_failures = 0, f_student_number = start_number,
              f_council_successful = 0\<rparr> of
        None \<Rightarrow> None
      | Some (Inl e) \<Rightarrow> Some (Inl e)
      | Some (Inr fs) \<Rightarrow> Some (Inr (f_council_successful fs, crawler fs)))"

section \<open>Properties of the Python primitives\<close>

lemma dec_small: "n < 10 \<Longrightarrow> dec n = [digit_char n]"
  by (simp add: dec.simps)

lemma dec_big: "\<not> n < 10 \<Longrightarrow> dec n = dec (n div 10) @ [digit_char (n mod 10)]"
  by (subst dec.simps) simp

lemma digit_char_eval:
  "digit_char 0 = CHR ''0''" "digit_char 1 = CHR ''1''" "digit_char 2 = CHR ''2''"
  "digit_char 3 = CHR ''3''" "digit_char 4 = CHR ''4''" "digit_char 5 = CHR ''5''"
  "digit_char 6 = CHR ''6''" "digit_char 7 = CHR ''7''" "digit_char 8 = CHR ''8''"
  "digit_char 9 = CHR ''9''" "digit_char (Suc 0) = CHR ''1''"
  by code_simp+

lemma replicate_numeral: "replicate (numeral k) x = x # replicate (pred_numeral k) x"
  by (simp add: numeral_eq_Suc)

lemmas fmt_eval = format_0d_def zfill_def dec_small dec_big digit_char_eval replicate_numeral

lemma is_digit_digit_char: "d < 10 \<Longrightarrow> is_digit (digit_char d)"
  by (simp add: is_digit_def digit_char_def)

lemma digit_val_digit_char: "d < 10 \<Longrightarrow> digit_val (digit_char d) = int d"
  by (simp add: digit_val_def digit_char_def)

lemma dec_digits: "\<forall>c\<in>set (dec n). is_digit c"
  by (induction n rule: dec.induct) (subst dec.simps, simp add: is_digit_digit_char)

lemma dec_nonempty: "dec n \<noteq> []"
  by (subst dec.simps) simp

lemma length_dec_le: "0 < k \<Longrightarrow> n < 10 ^ k \<Longrightarrow> length (dec n) \<le> k"
proof (induction k arbitrary: n)
  case 0
  then show ?case by simp
next
  case (Suc k)
  show ?case
  proof (cases "n < 10")
    case True
    then show ?thesis by (simp add: dec_small)
  next
    case False
    then have k: "0 < k" using Suc.prems by (cases k) auto
    have "n div 10 < 10 ^ k" using Suc.prems by (simp add: less_mult_imp_div_less mult.commute)
    then have "length (dec (n div 10)) \<le> k" using Suc.IH k by blast
    then show ?thesis using False by (simp add: dec_big)
  qed
qed

lemma py_digits_all_digits:
  "\<forall>c\<in>set ds. is_digit c \<Longrightarrow> ds \<noteq> [] \<or> p \<Longrightarrow> py_digits acc p ds = Some (digits_value acc ds, [])"
  by (induction ds arbitrary: acc p) (auto simp: digits_value_def)

lemma digits_value_append: "digits_value acc (xs @ ys) = digits_value (digits_value acc xs) ys"
  by (simp add: digits_value_def)

lemma digits_value_dec: "digits_value acc (dec n) = acc * 10 ^ length (dec n) + int n"
proof (induction n arbitrary: acc rule: dec.induct)
  case (1 n)
  show ?case
  proof (cases "n < 10")
    case True
    then show ?thesis by (simp add: dec_small digits_value_def digit_val_digit_char)
  next
    case False
    have "digits_value acc (dec n) = 10 * digits_value acc (dec (n div 10)) + int (n mod 10)"
      using False by (simp add: dec_big digits_value_append) (simp add: digits_value_def digit_val_digit_char)
    also have "\<dots> = 10 * (acc * 10 ^ length (dec (n div 10)) + int (n div 10)) + int (n mod 10)"
      using "1.IH" False by simp
    also have "\<dots> = acc * 10 ^ length (dec n) + int n"
      using False by (simp add: dec_big algebra_simps zdiv_int zmod_int)
    finally show ?thesis .
  qed
qed

lemma digits_value_zeros: "digits_value 0 (replicate k (CHR ''0'')) = 0"
  by (induction k) (simp_all add: digits_value_def digit_val_def)

lemma digits_value_zfill: "digits_value 0 (zfill w (dec n)) = int n"
  by (simp add: zfill_def digits_value_append digits_value_zeros digits_value_dec)

lemma zfill_digits: "\<forall>c\<in>set (zfill w (dec n)). is_digit c"
  using dec_digits by (auto simp: zfill_def is_digit_def)

lemma zfill_nonempty: "zfill w (dec n) \<noteq> []"
  by (simp add: zfill_def dec_nonempty)

lemma digit_not_space: "is_digit c \<Longrightarrow> \<not> py_isspace c"
  by (auto simp: is_digit_def py_isspace_def Let_def)

lemma digit_not_sign: "is_digit c \<Longrightarrow> c \<noteq> CHR ''-'' \<and> c \<noteq> CHR ''+''"
  by (auto simp: is_digit_def)

lemma py_int_digits:
  assumes "\<forall>c\<in>set ds. is_digit c" and "ds \<noteq> []"
  shows "py_int ds = Inr (digits_value 0 ds)"
proof -
  obtain c cs where ds: "ds = c # cs" using assms(2) by (cases ds) auto
  then have c: "is_digit c" using assms(1) by simp
  have "dropWhile py_isspace ds = ds" using ds c digit_not_space by simp
  moreover have "hd ds \<noteq> CHR ''-''" "hd ds \<noteq> CHR ''+''" using ds c digit_not_sign by auto
  ultimately show ?thesis
    using py_digits_all_digits [OF assms(1), of False 0] assms(2)
    by (simp add: py_int_def)
qed

lemma py_int_format_0d: "0 \<le> n \<Longrightarrow> py_int (format_0d w n) = Inr n"
  using py_int_digits [OF zfill_digits zfill_nonempty, of w "nat n"]
  by (simp add: format_0d_def digits_value_zfill)

lemma length_format_0d: "0 < w \<Longrightarrow> 0 \<le> n \<Longrightarrow> n < 10 ^ w \<Longrightarrow> length (format_0d w n) = w"
proof -
  assume w: "0 < w" and n: "0 \<le> n" "n < 10 ^ w"
  have "nat n < 10 ^ w" using n by (simp add: nat_less_iff)
  then have "length (dec (nat n)) \<le> w" using length_dec_le w by blast
  then show ?thesis using n by (simp add: format_0d_def zfill_def)
qed

section \<open>Properties of the registration number generator\<close>

lemma G_simps:
  "council_codes RegistrationNumberGenerator = map (format_0d 2) [1..65]"
  "student_number_min RegistrationNumberGenerator = 1"
  "student_number_max RegistrationNumberGenerator = 999999"
  by (simp_all add: RegistrationNumberGenerator_def Config_registration_def)

lemma council_code_mem:
  "1 \<le> i \<Longrightarrow> i \<le> 65 \<Longrightarrow> format_0d 2 i \<in> set (council_codes RegistrationNumberGenerator)"
  by (simp add: G_simps)

lemma council_code_length:
  "cc \<in> set (council_codes RegistrationNumberGenerator) \<Longrightarrow> length cc = 2"
  by (auto simp: G_simps length_format_0d)

lemma is_valid_format_generate_single:
  assumes "council_code \<in> set (council_codes g)" and "length council_code = 2"
    and "student_number_min g \<le> n" and "n \<le> student_number_max g"
    and "0 \<le> n" and "n < 1000000"
  shows "is_valid_format g (generate_single g council_code n)"
proof -
  have len: "length (format_0d 6 n) = 6" using assms(5,6) by (simp add: length_format_0d)
  have "py_int (format_0d 6 n) = Inr n" using assms(5) by (rule py_int_format_0d)
  moreover have "council_code \<noteq> []" using assms(2) by auto
  ultimately show ?thesis using assms len
    by (simp add: is_valid_format_def generate_single_def)
qed

lemma parse_invalid: "\<not> is_valid_format g rn \<Longrightarrow> parse g rn = Inl ValueError"
  by (simp add: parse_def)

text \<open>
  Claim C3. For every council code of the configured set and every student number within
  the configured bounds, \<open>parse\<close> applied to the result of \<open>generate_single\<close> returns
  the original council code and student number. Every registration number of the wrong
  length, with an unknown council code, or whose student part is not an integer within
  the bounds, makes \<open>parse\<close> raise its invalid-format \<^verbatim>\<open>ValueError\<close>.
\<close>

theorem parse_generate_single_roundtrip:
  "(council_code \<in> set (council_codes RegistrationNumberGenerator)
      \<and> student_number_min RegistrationNumberGenerator \<le> n
      \<and> n \<le> student_number_max RegistrationNumberGenerator
    \<longrightarrow> parse RegistrationNumberGenerator (generate_single RegistrationNumberGenerator council_code n)
          = Inr \<lparr>p_council_code = council_code, p_student_number = n,
                 p_full = generate_single RegistrationNumberGenerator council_code n\<rparr>)
   \<and> (length rn \<noteq> 8
        \<or> take 2 rn \<notin> set (council_codes RegistrationNumberGenerator)
        \<or> (\<forall>m. py_int (drop 2 rn) = Inr m \<longrightarrow>
               m < student_number_min RegistrationNumberGenerator
             \<or> m > student_number_max RegistrationNumberGenerator)
    \<longrightarrow> parse RegistrationNumberGenerator rn = Inl ValueError)"
proof (intro conjI impI)
  let ?G = RegistrationNumberGenerator
  assume a: "council_code \<in> set (council_codes ?G) \<and> student_number_min ?G \<le> n \<and> n \<le> student_number_max ?G"
  then have len: "length council_code = 2" by (simp add: council_code_length)
  have n: "0 \<le> n" "n < 1000000" using a by (simp_all add: G_simps)
  have v: "is_valid_format ?G (generate_single ?G council_code n)"
    using a len n by (intro is_valid_format_generate_single) simp_all
  have "py_int (format_0d 6 n) = Inr n" using n(1) by (rule py_int_format_0d)
  then show "parse ?G (generate_single ?G council_code n)
      = Inr \<lparr>p_council_code = council_code, p_student_number = n,
             p_full = generate_single ?G council_code n\<rparr>"
    using v len by (simp add: parse_def) (simp add: generate_single_def)
next
  let ?G = RegistrationNumberGenerator
  assume "length rn \<noteq> 8 \<or> take 2 rn \<notin> set (council_codes ?G)
      \<or> (\<forall>m. py_int (drop 2 rn) = Inr m \<longrightarrow> m < student_number_min ?G \<or> m > student_number_max ?G)"
  then have "\<not> is_valid_format ?G rn"
    by (auto simp: is_valid_format_def Let_def split: sum.splits)
  then show "parse ?G rn = Inl ValueError" by (rule parse_invalid)
qed

lemma py_int_eval2: "py_int ''000000'' = Inr 0" by code_simp

theorem parse_generate_single_roundtrip_witness:
  "parse RegistrationNumberGenerator (generate_single RegistrationNumberGenerator ''17'' 42)
     = Inr \<lparr>p_council_code = ''17'', p_student_number = 42, p_full = ''17000042''\<rparr>
   \<and> parse RegistrationNumberGenerator ''1700042'' = Inl ValueError
   \<and> parse RegistrationNumberGenerator ''66000042'' = Inl ValueError
   \<and> parse RegistrationNumberGenerator ''17000000'' = Inl ValueError"
proof -
  have "format_0d 2 17 = ''17''" by (simp add: fmt_eval)
  then have m: "''17'' \<in> set (council_codes RegistrationNumberGenerator)"
    using council_code_mem [of 17] by simp
  have g: "generate_single RegistrationNumberGenerator ''17'' 42 = ''17000042''"
    by (simp add: generate_single_def fmt_eval)
  have nm: "''66'' \<notin> set (council_codes RegistrationNumberGenerator)"
  proof
    assume "''66'' \<in> set (council_codes RegistrationNumberGenerator)"
    then obtain i where i: "1 \<le> i" "i \<le> 65" "format_0d 2 i = ''66''" by (auto simp: G_simps)
    then have "py_int ''66'' = Inr i" using py_int_format_0d [of i 2] by simp
    moreover have "py_int ''66'' = Inr 66" by code_simp
    ultimately show False using i by simp
  qed
  show ?thesis
    using parse_generate_single_roundtrip [of "''17''" 42 "''1700042''"]
      parse_generate_single_roundtrip [of "''17''" 42 "''66000042''"]
      parse_generate_single_roundtrip [of "''17''" 42 "''17000000''"]
      m nm g py_int_eval2
    by (simp add: G_simps)
qed

text \<open>
  The three kinds of malformed input above are all that \<open>parse\<close> rejects: the student part
  goes through \<^verbatim>\<open>int()\<close>, so a sign in place of a leading zero is accepted.
\<close>

lemma parse_accepts_signed: "parse RegistrationNumberGenerator ''17+00042''
     = Inr \<lparr>p_council_code = ''17'', p_student_number = 42, p_full = ''17+00042''\<rparr>"
proof -
  have "format_0d 2 17 = ''17''" by (simp add: fmt_eval)
  then have m: "''17'' \<in> set (council_codes RegistrationNumberGenerator)"
    using council_code_mem [of 17] by simp
  have "py_int ''+00042'' = Inr 42" by code_simp
  then show ?thesis using m by (simp add: parse_def is_valid_format_def G_simps(2,3))
qed

text \<open>
  Claim C7 says that \<open>generate_single\<close> fails on a council code outside the configured set
  or a student number outside the bounds. The source has no such check: for the
  student numbers 0 and 1000000, which the checked contract rejects, it returns a string.
\<close>

theorem generate_single_spec_counterexample:
  "generate_single RegistrationNumberGenerator ''01'' 0 = ''01000000''
   \<and> singleIdentifier_spec RegistrationNumberGenerator ''01'' 0 = Inl InvalidArgument
   \<and> generate_single RegistrationNumberGenerator ''01'' 1000000 = ''011000000''
   \<and> singleIdentifier_spec RegistrationNumberGenerator ''01'' 1000000 = Inl InvalidArgument"
  by (simp add: generate_single_def singleIdentifier_spec_def G_simps(2,3) fmt_eval)

lemma format_0d_digits: "0 \<le> n \<Longrightarrow> \<forall>c\<in>set (format_0d w n). is_digit c"
  using zfill_digits by (simp add: format_0d_def)

text \<open>
  Claim C7, amended. \<open>generate_single\<close> never fails: for every council code and every
  student number the result is the council code followed by the student number formatted
  with \<open>06d\<close>. For a student number that is not negative, the formatted part consists of
  digits only and reads back as the number; up to 999999 it has exactly six characters.
  For arguments inside the configured set and bounds the result is the one of the checked
  contract.
\<close>

theorem generate_single_unchecked:
  "take (length council_code) (generate_single g council_code n) = council_code
   \<and> drop (length council_code) (generate_single g council_code n) = format_0d 6 n
   \<and> (0 \<le> n \<longrightarrow> py_int (format_0d 6 n) = Inr n \<and> (\<forall>c\<in>set (format_0d 6 n). is_digit c))
   \<and> (0 \<le> n \<and> n \<le> 999999 \<longrightarrow> length (format_0d 6 n) = 6)
   \<and> (council_code \<in> set (council_codes g) \<and> student_number_min g \<le> n \<and> n \<le> student_number_max g
        \<longrightarrow> singleIdentifier_spec g council_code n = Inr (generate_single g council_code n))"
proof (intro conjI impI)
  show "take (length council_code) (generate_single g council_code n) = council_code"
    by (simp add: generate_single_def)
  show "drop (length council_code) (generate_single g council_code n) = format_0d 6 n"
    by (simp add: generate_single_def)
next
  assume "0 \<le> n"
  then show "py_int (format_0d 6 n) = Inr n" by (rule py_int_format_0d)
next
  assume "0 \<le> n"
  then show "\<forall>c\<in>set (format_0d 6 n). is_digit c" by (rule format_0d_digits)
next
  assume "0 \<le> n \<and> n \<le> 999999"
  then show "length (format_0d 6 n) = 6" by (simp add: length_format_0d)
next
  assume "council_code \<in> set (council_codes g) \<and> student_number_min g \<le> n \<and> n \<le> student_number_max g"
  then show "singleIdentifier_spec g council_code n = Inr (generate_single g council_code n)"
    by (simp add: singleIdentifier_spec_def generate_single_def)
qed

theorem generate_single_unchecked_witness:
  "generate_single RegistrationNumberGenerator ''17'' 42 = ''17000042''
   \<and> singleIdentifier_spec RegistrationNumberGenerator ''17'' 42 = Inr ''17000042''
   \<and> py_int ''000042'' = Inr 42"
proof -
  have "format_0d 2 17 = ''17''" by (simp add: fmt_eval)
  then have m: "''17'' \<in> set (council_codes RegistrationNumberGenerator)"
    using council_code_mem [of 17] by simp
  have g: "generate_single RegistrationNumberGenerator ''17'' 42 = ''17000042''"
    by (simp add: generate_single_def fmt_eval)
  have f: "format_0d 6 42 = ''000042''" by (simp add: fmt_eval)
  show ?thesis
    using generate_single_unchecked [of "''17''" RegistrationNumberGenerator 42] m g f
    by (simp add: G_simps(2,3))
qed

subsection \<open>Batches\<close>

lemma concat_batch_loop:
  "concat (batch_loop g sz cc xs batch) = batch @ map (generate_single g cc) xs"
  by (induction xs arbitrary: batch) (simp_all add: Let_def)

lemma concat_council_batches: "concat (council_batches g sz cc) = generate_for_council g cc"
  by (simp add: council_batches_def generate_for_council_def concat_batch_loop)

lemma concat_concat_map: "concat (concat (map f xs)) = concat (map (\<lambda>x. concat (f x)) xs)"
  by (induction xs) simp_all

lemma concat_generate_batches: "concat (generate_batches g b) = generate_all g"
  by (simp add: generate_batches_def generate_all_def concat_concat_map concat_council_batches)

lemma batch_loop_lengths:
  "0 < sz \<Longrightarrow> int (length batch) < sz \<Longrightarrow>
   (\<forall>b\<in>set (batch_loop g sz cc xs batch). 0 < length b \<and> int (length b) \<le> sz)
   \<and> (\<forall>b\<in>set (butlast (batch_loop g sz cc xs batch)). int (length b) = sz)"
proof (induction xs arbitrary: batch)
  case Nil
  then show ?case by simp
next
  case (Cons i xs)
  let ?b = "batch @ [generate_single g cc i]"
  show ?case
  proof (cases "int (length ?b) = sz")
    case True
    have "int (length ([]::string list)) < sz" using Cons.prems by simp
    from Cons.IH [OF Cons.prems(1) this] True show ?thesis
      by (simp add: Let_def)
  next
    case False
    then have "int (length ?b) < sz" using Cons.prems by simp
    from Cons.IH [OF Cons.prems(1) this] False show ?thesis
      by (simp add: Let_def)
  qed
qed

lemma batch_loop_all_full:
  "0 < sz \<Longrightarrow> int (length batch) < sz \<Longrightarrow>
   (\<forall>b\<in>set (batch_loop g sz cc xs batch). int (length b) = sz)
     \<longleftrightarrow> (int (length batch) + int (length xs)) mod sz = 0"
proof (induction xs arbitrary: batch)
  case Nil
  then show ?case by (auto simp: mod_pos_pos_trivial)
next
  case (Cons i xs)
  let ?b = "batch @ [generate_single g cc i]"
  show ?case
  proof (cases "int (length ?b) = sz")
    case True
    have e: "int (length ([]::string list)) < sz" using Cons.prems by simp
    have "int (length batch) + int (length (i # xs)) = sz + int (length xs)"
      using True by simp
    then have "(int (length batch) + int (length (i # xs))) mod sz = (sz + int (length xs)) mod sz"
      by (rule arg_cong)
    also have "\<dots> = int (length xs) mod sz" by simp
    finally show ?thesis using Cons.IH [OF Cons.prems(1) e] True by (simp add: Let_def)
  next
    case False
    then have "int (length ?b) < sz" using Cons.prems by simp
    from Cons.IH [OF Cons.prems(1) this] False show ?thesis
      by (simp add: Let_def algebra_simps)
  qed
qed

lemma batch_loop_last:
  "0 < sz \<Longrightarrow> int (length batch) < sz \<Longrightarrow> (int (length batch) + int (length xs)) mod sz \<noteq> 0 \<Longrightarrow>
   batch_loop g sz cc xs batch \<noteq> []
   \<and> int (length (last (batch_loop g sz cc xs batch))) = (int (length batch) + int (length xs)) mod sz"
proof (induction xs arbitrary: batch)
  case Nil
  then show ?case by (auto simp: mod_pos_pos_trivial)
next
  case (Cons i xs)
  let ?b = "batch @ [generate_single g cc i]"
  show ?case
  proof (cases "int (length ?b) = sz")
    case True
    have e: "int (length ([]::string list)) < sz" using Cons.prems by simp
    have "int (length batch) + int (length (i # xs)) = sz + int (length xs)"
      using True by simp
    then have "(int (length batch) + int (length (i # xs))) mod sz = (sz + int (length xs)) mod sz"
      by (rule arg_cong)
    also have "\<dots> = int (length xs) mod sz" by simp
    finally have m: "(int (length batch) + int (length (i # xs))) mod sz = int (length xs) mod sz" .
    then have "(int (length ([]::string list)) + int (length xs)) mod sz \<noteq> 0" using Cons.prems(3) by simp
    from Cons.IH [OF Cons.prems(1) e this] True m show ?thesis
      by (simp add: Let_def)
  next
    case False
    then have l: "int (length ?b) < sz" using Cons.prems by simp
    have "(int (length ?b) + int (length xs)) mod sz \<noteq> 0" using Cons.prems(3) by (simp add: algebra_simps)
    from Cons.IH [OF Cons.prems(1) l this] False show ?thesis
      by (simp add: Let_def algebra_simps)
  qed
qed

lemma length_upto: "length [i..j] = nat (j - i + 1)"
  by simp

lemma length_generate_for_council:
  "length (generate_for_council g cc) = nat (student_number_max g - student_number_min g + 1)"
  by (simp add: generate_for_council_def)

text \<open>
  Claim C5, amended. For every positive batch size, the concatenation of all batches
  yielded by \<open>generate_batches\<close> is the full council-major enumeration, in order. The
  batches are yielded council by council: the batches of one council concatenate to that
  council's enumeration, none is empty or longer than the batch size, every batch except
  possibly the last one of each council has exactly the batch size, and all batches of a
  council are full exactly when the batch size divides the number of student numbers of
  a council.
\<close>

theorem generate_batches_per_council:
  assumes "0 < sz"
  shows "concat (generate_batches g (Some sz)) = generate_all g
    \<and> generate_batches g (Some sz) = concat (map (council_batches g sz) (council_codes g))
    \<and> (\<forall>cc. concat (council_batches g sz cc) = generate_for_council g cc
          \<and> (\<forall>b\<in>set (council_batches g sz cc). 0 < length b \<and> int (length b) \<le> sz)
          \<and> (\<forall>b\<in>set (butlast (council_batches g sz cc)). int (length b) = sz)
          \<and> ((\<forall>b\<in>set (council_batches g sz cc). int (length b) = sz)
                \<longleftrightarrow> int (length (generate_for_council g cc)) mod sz = 0))"
proof (intro conjI allI)
  show "concat (generate_batches g (Some sz)) = generate_all g"
    by (rule concat_generate_batches)
  show "generate_batches g (Some sz) = concat (map (council_batches g sz) (council_codes g))"
    by (simp add: generate_batches_def)
next
  fix cc
  show "concat (council_batches g sz cc) = generate_for_council g cc"
    by (rule concat_council_batches)
  have e: "int (length ([]::string list)) < sz" using assms by simp
  show "\<forall>b\<in>set (council_batches g sz cc). 0 < length b \<and> int (length b) \<le> sz"
    using batch_loop_lengths [OF assms e] by (simp add: council_batches_def)
  show "\<forall>b\<in>set (butlast (council_batches g sz cc)). int (length b) = sz"
    using batch_loop_lengths [OF assms e] by (simp add: council_batches_def)
  show "(\<forall>b\<in>set (council_batches g sz cc). int (length b) = sz)
          \<longleftrightarrow> int (length (generate_for_council g cc)) mod sz = 0"
    using batch_loop_all_full [OF assms e, of g cc "[student_number_min g .. student_number_max g]"]
    by (simp add: council_batches_def generate_for_council_def)
qed

theorem generate_batches_per_council_witness:
  "concat (generate_batches RegistrationNumberGenerator (Some 1000)) = generate_all RegistrationNumberGenerator
   \<and> concat (council_batches RegistrationNumberGenerator 1000 ''01'')
       = generate_for_council RegistrationNumberGenerator ''01''"
proof -
  have "0 < (1000::int)" by simp
  from generate_batches_per_council [OF this, of RegistrationNumberGenerator]
  show ?thesis by blast
qed

lemma council_batches_01_last:
  "council_batches RegistrationNumberGenerator 1000 cc \<noteq> []
   \<and> length (last (council_batches RegistrationNumberGenerator 1000 cc)) = 999"
proof -
  have e: "int (length ([]::string list)) < 1000" by simp
  have "(int (length ([]::string list)) + int (length [1..999999::int])) mod 1000 \<noteq> 0" by simp
  from batch_loop_last [OF _ e this, of RegistrationNumberGenerator cc]
  show ?thesis by (simp add: council_batches_def G_simps(2,3))
qed

lemma council_codes_split:
  "council_codes RegistrationNumberGenerator = ''01'' # ''02'' # map (format_0d 2) [3..65]"
proof -
  have "[1..65::int] = 1 # 2 # [3..65]" by (simp add: upto_rec1)
  then show ?thesis by (simp add: G_simps(1) fmt_eval)
qed

text \<open>
  Claim C5 as stated allows a short batch only at the very end of the whole enumeration.
  With the configured bounds and batch size 1000, the last batch of council \<open>01\<close> has 999
  registration numbers and is followed by the batches of council \<open>02\<close>.
\<close>

theorem generate_batches_short_batch_counterexample:
  "last (council_batches RegistrationNumberGenerator 1000 ''01'')
     \<in> set (butlast (generate_batches RegistrationNumberGenerator (Some 1000)))
   \<and> length (last (council_batches RegistrationNumberGenerator 1000 ''01'')) = 999"
proof -
  let ?G = RegistrationNumberGenerator
  let ?A = "council_batches ?G 1000 ''01''"
  let ?B = "council_batches ?G 1000 ''02''"
  let ?C = "concat (map (council_batches ?G 1000) (map (format_0d 2) [3..65]))"
  have gb: "generate_batches ?G (Some 1000) = ?A @ (?B @ ?C)"
    by (simp add: generate_batches_def council_codes_split)
  have A: "?A \<noteq> []" "length (last ?A) = 999" using council_batches_01_last [of "''01''"] by simp_all
  have B: "?B \<noteq> []" using council_batches_01_last [of "''02''"] by simp
  have "butlast (?A @ (?B @ ?C)) = ?A @ butlast (?B @ ?C)" using B by (simp add: butlast_append)
  moreover have "last ?A \<in> set ?A" using A(1) by simp
  ultimately have "last ?A \<in> set (butlast (generate_batches ?G (Some 1000)))"
    using gb by simp
  then show ?thesis using A(2) by simp
qed

section \<open>Properties of the skip manager\<close>

subsection \<open>\<open>should_skip\<close>\<close>

lemma should_skip_eq:
  assumes "py_int (drop 2 rn) = Inr n"
  shows "should_skip s rn = Inr
     ((\<exists>limit. council_limits s (take 2 rn) = Some limit \<and> n > limit)
      \<or> (\<exists>ranges. skip_ranges s (take 2 rn) = Some ranges \<and> (\<exists>r\<in>set ranges. sr_start r \<le> n \<and> n \<le> sr_end r))
      \<or> rn \<in> invalid_patterns s)"
  using assms by (auto simp: should_skip_def Let_def list_ex_iff split: option.splits)

lemma is_valid_format_py_int:
  "is_valid_format g rn \<Longrightarrow> \<exists>n. py_int (drop 2 rn) = Inr n \<and> student_number_min g \<le> n \<and> n \<le> student_number_max g"
  by (auto simp: is_valid_format_def Let_def split: if_splits sum.splits)

text \<open>
  Claim C4. For every well-formed registration number (one that \<open>parse\<close> accepts),
  \<open>should_skip\<close> returns true exactly when the student number is strictly above the
  recorded limit of its council, or lies inside some recorded skip range of its council
  (both ends included), or the registration number is in the invalid set; otherwise it
  returns false.
\<close>

theorem should_skip_iff:
  assumes "parse g rn = Inr p"
  shows "should_skip s rn = Inr
     ((\<exists>limit. council_limits s (p_council_code p) = Some limit \<and> p_student_number p > limit)
      \<or> (\<exists>ranges. skip_ranges s (p_council_code p) = Some ranges
            \<and> (\<exists>r\<in>set ranges. sr_start r \<le> p_student_number p \<and> p_student_number p \<le> sr_end r))
      \<or> rn \<in> invalid_patterns s)"
proof -
  from assms have v: "is_valid_format g rn" by (auto simp: parse_def split: if_splits)
  then obtain n where n: "py_int (drop 2 rn) = Inr n" using is_valid_format_py_int by blast
  with assms v have "p_council_code p = take 2 rn" "p_student_number p = n"
    by (auto simp: parse_def)
  with should_skip_eq [OF n, of s] show ?thesis by simp
qed

lemma parse_of_generated:
  assumes "cc \<in> set (council_codes RegistrationNumberGenerator)" and "1 \<le> n" and "n \<le> 999999"
  shows "parse RegistrationNumberGenerator (cc @ format_0d 6 n)
           = Inr \<lparr>p_council_code = cc, p_student_number = n, p_full = cc @ format_0d 6 n\<rparr>"
proof -
  let ?G = RegistrationNumberGenerator
  have len: "length cc = 2" using assms(1) by (rule council_code_length)
  have v: "is_valid_format ?G (generate_single ?G cc n)"
    using assms len by (intro is_valid_format_generate_single) (simp_all add: G_simps)
  have "py_int (format_0d 6 n) = Inr n" using assms(2) by (simp add: py_int_format_0d)
  then show ?thesis using v len by (simp add: parse_def generate_single_def)
qed

theorem should_skip_iff_witness:
  "should_skip (CrawlerSkipManager
        (Some [''17'' \<mapsto> [\<lparr>sr_start = 100, sr_end = 200, sr_reason = ''not_found'', sr_added_at = ''t''\<rparr>]])
        (Some [''17'' \<mapsto> 500]) (Some {''17000007''})) ''17000042'' = Inr False
   \<and> should_skip (CrawlerSkipManager
        (Some [''17'' \<mapsto> [\<lparr>sr_start = 100, sr_end = 200, sr_reason = ''not_found'', sr_added_at = ''t''\<rparr>]])
        (Some [''17'' \<mapsto> 500]) (Some {''17000007''})) ''17000200'' = Inr True"
proof -
  let ?G = RegistrationNumberGenerator
  have f: "format_0d 2 17 = ''17''" "format_0d 6 42 = ''000042''" "format_0d 6 200 = ''000200''"
    by (simp_all add: fmt_eval)
  have m: "''17'' \<in> set (council_codes ?G)" using council_code_mem [of 17] f by simp
  have p1: "parse ?G ''17000042'' = Inr \<lparr>p_council_code = ''17'', p_student_number = 42, p_full = ''17000042''\<rparr>"
    using parse_of_generated [OF m, of 42] f by simp
  have p2: "parse ?G ''17000200'' = Inr \<lparr>p_council_code = ''17'', p_student_number = 200, p_full = ''17000200''\<rparr>"
    using parse_of_generated [OF m, of 200] f by simp
  show ?thesis
    using should_skip_iff [OF p1] should_skip_iff [OF p2]
    by (simp add: CrawlerSkipManager_def)
qed


subsection \<open>\<open>record_failure\<close> and the promotion to a skip range\<close>

lemma record_failure_below:
  assumes "py_int (drop 2 rn) = Inr n" and "key = failure_key (take 2 rn) n"
    and "failure_count s key + 1 < failure_threshold s"
  shows "record_failure a io rn et s = (Inr (), counted s key rn (failure_count s key + 1))"
  using assms by (simp add: record_failure_def Let_def counted_def failure_count_def)

lemma record_failure_at:
  assumes "py_int (drop 2 rn) = Inr n" and "key = failure_key (take 2 rn) n"
    and "failure_threshold s \<le> failure_count s key + 1"
  shows "record_failure a io rn et s =
     save_skip_ranges io
       ((counted s key rn (failure_count s key + 1))
          \<lparr>skip_ranges := (skip_ranges s)(take 2 rn \<mapsto> ranges_of s (take 2 rn) @ [promoted_range a n])\<rparr>)"
  using assms
  by (simp add: record_failure_def Let_def counted_def failure_count_def add_skip_range_def
      promoted_range_def ranges_of_def)

lemma counted_simps:
  "failure_count (counted s key rn c) key = c"
  "failure_threshold (counted s key rn c) = failure_threshold s"
  "skip_ranges (counted s key rn c) = skip_ranges s"
  "file_skip_ranges (counted s key rn c) = file_skip_ranges s"
  "invalid_patterns (counted s key rn c) = insert rn (invalid_patterns s)"
  "council_limits (counted s key rn c) = council_limits s"
  "counted (counted s key rn c) key rn c' = counted s key rn c'"
  by (simp_all add: counted_def failure_count_def)

lemma record_failure_times_below:
  assumes "py_int (drop 2 rn) = Inr n" and "key = failure_key (take 2 rn) n"
  shows "failure_count s key + int (Suc k) < failure_threshold s \<Longrightarrow>
     record_failure_times (Suc k) a io rn et s
       = (Inr (), counted s key rn (failure_count s key + int (Suc k)))"
proof (induction k arbitrary: s)
  case 0
  then show ?case using record_failure_below [OF assms, of s a io et] by simp
next
  case (Suc k)
  let ?s1 = "counted s key rn (failure_count s key + 1)"
  have b: "failure_count s key + 1 < failure_threshold s" using Suc.prems by simp
  have st: "record_failure a io rn et s = (Inr (), ?s1)"
    using record_failure_below [OF assms b] .
  have "failure_count ?s1 key + int (Suc k) < failure_threshold ?s1"
    using Suc.prems by (simp add: counted_simps)
  from Suc.IH [OF this]
  have "record_failure_times (Suc k) a io rn et ?s1
      = (Inr (), counted s key rn (failure_count s key + 1 + int (Suc k)))"
    by (simp add: counted_simps)
  then show ?case using st by (simp add: algebra_simps)
qed

lemma record_failure_times_snoc:
  "record_failure_times (Suc k) a io rn et s =
     (case record_failure_times k a io rn et s of
        (Inl e, s') \<Rightarrow> (Inl e, s')
      | (Inr u, s') \<Rightarrow> record_failure a io rn et s')"
proof (induction k arbitrary: s)
  case 0
  show ?case by (simp split: prod.splits sum.splits)
next
  case (Suc k)
  show ?case
  proof (cases "record_failure a io rn et s")
    case (Pair r s1)
    show ?thesis
    proof (cases r)
      case (Inl e)
      with Pair show ?thesis by simp
    next
      case (Inr u)
      have A: "record_failure_times (Suc (Suc k)) a io rn et s = record_failure_times (Suc k) a io rn et s1"
        using Pair Inr by simp
      have B: "record_failure_times (Suc k) a io rn et s = record_failure_times k a io rn et s1"
        using Pair Inr by simp
      from Suc.IH [of s1] show ?thesis by (simp only: A B)
    qed
  qed
qed

lemma record_failure_times_99:
  assumes "py_int (drop 2 rn) = Inr n" and "key = failure_key (take 2 rn) n"
    and "failure_threshold s = 100" and "failure_count s key = 0"
  shows "record_failure_times 99 a io rn et s = (Inr (), counted s key rn 99)"
proof -
  have "failure_count s key + int (Suc 98) < failure_threshold s" using assms(3,4) by simp
  from record_failure_times_below [OF assms(1,2) this, of a io et]
  show ?thesis using assms(4) by (simp del: record_failure_times.simps)
qed

lemma record_failure_times_100:
  assumes "py_int (drop 2 rn) = Inr n" and "key = failure_key (take 2 rn) n"
    and "failure_threshold s = 100" and "failure_count s key = 0"
  shows "record_failure_times 100 a io rn et s =
     save_skip_ranges io
       ((counted s key rn 100)
          \<lparr>skip_ranges := (skip_ranges s)(take 2 rn \<mapsto> ranges_of s (take 2 rn) @ [promoted_range a n])\<rparr>)"
proof -
  let ?s99 = "counted s key rn 99"
  have "failure_threshold ?s99 \<le> failure_count ?s99 key + 1"
    using assms(3) by (simp add: counted_simps)
  from record_failure_at [OF assms(1,2) this, of a io et]
  have "record_failure a io rn et ?s99 =
     save_skip_ranges io
       ((counted s key rn 100)
          \<lparr>skip_ranges := (skip_ranges s)(take 2 rn \<mapsto> ranges_of s (take 2 rn) @ [promoted_range a n])\<rparr>)"
    by (simp add: counted_simps ranges_of_def)
  moreover have "(100::nat) = Suc 99" by simp
  ultimately show ?thesis
    using record_failure_times_99 [OF assms, of a io et]
    by (simp only: record_failure_times_snoc) simp
qed

text \<open>
  Claim C2, amended. On an object with the default threshold 100 and no failure counted
  yet for the key of a registration number, 99 calls of \<^verbatim>\<open>record_failure\<close> for it return
  normally and leave the skip ranges and their file as they were. The 100th call, when its
  write succeeds, returns normally, appends to the list of the council one range with
  reason \<open>consecutive_failures\<close>, and has written the skip ranges, this range included, to
  the file. The range is the closed interval from the failing student number itself to
  that number plus 1000: it covers the failing number and the 1000 numbers after it.
\<close>

theorem record_failure_promotes_range:
  assumes "py_int (drop 2 rn) = Inr n" and "failure_threshold s = 100"
    and "failure_count s (failure_key (take 2 rn) n) = 0"
  shows "fst (record_failure_times 99 a io rn et s) = Inr ()
    \<and> skip_ranges (snd (record_failure_times 99 a io rn et s)) = skip_ranges s
    \<and> file_skip_ranges (snd (record_failure_times 99 a io rn et s)) = file_skip_ranges s
    \<and> fst (record_failure_times 100 a WriteOk rn et s) = Inr ()
    \<and> skip_ranges (snd (record_failure_times 100 a WriteOk rn et s))
        = (skip_ranges s)(take 2 rn \<mapsto> ranges_of s (take 2 rn) @ [promoted_range a n])
    \<and> file_skip_ranges (snd (record_failure_times 100 a WriteOk rn et s))
        = Some (skip_ranges (snd (record_failure_times 100 a WriteOk rn et s)))
    \<and> sr_reason (promoted_range a n) = ''consecutive_failures''
    \<and> (\<forall>m. covers (promoted_range a n) m \<longleftrightarrow> n \<le> m \<and> m \<le> n + 1000)"
proof -
  note a = record_failure_times_99 [OF assms(1) refl assms(2,3), of a io et]
  note b = record_failure_times_100 [OF assms(1) refl assms(2,3), of a WriteOk et]
  show ?thesis
    by (simp only: a b) (simp add: counted_simps save_skip_ranges_def covers_def promoted_range_def)
qed

lemma key_eval: "failure_key ''01'' 5 = ''01_5''"
  by (simp add: failure_key_def py_str_def dec_small digit_char_eval)

lemma py_int_000005: "py_int ''000005'' = Inr 5"
  by code_simp

lemma fresh_manager:
  "failure_threshold (CrawlerSkipManager None None None) = 100"
  "failure_count (CrawlerSkipManager None None None) key = 0"
  "skip_ranges (CrawlerSkipManager None None None) = Map.empty"
  "file_skip_ranges (CrawlerSkipManager None None None) = None"
  "council_limits (CrawlerSkipManager None None None) = Map.empty"
  "invalid_patterns (CrawlerSkipManager None None None) = {}"
  by (simp_all add: CrawlerSkipManager_def failure_count_def)

theorem record_failure_promotes_range_witness:
  "skip_ranges (snd (record_failure_times 100 ''t'' WriteOk ''01000005'' ''not_found''
       (CrawlerSkipManager None None None))) ''01''
     = Some [\<lparr>sr_start = 5, sr_end = 1005, sr_reason = ''consecutive_failures'', sr_added_at = ''t''\<rparr>]
   \<and> skip_ranges (snd (record_failure_times 99 ''t'' WriteOk ''01000005'' ''not_found''
       (CrawlerSkipManager None None None))) ''01'' = None"
  using record_failure_promotes_range [of "''01000005''" 5 "CrawlerSkipManager None None None" "''t''" WriteOk "''not_found''"]
  by (simp add: py_int_000005 fresh_manager ranges_of_def promoted_range_def del: record_failure_times.simps)

text \<open>
  Claim C2 as stated has the range cover exactly the 1000 numbers after the failing one.
  After 100 failures of \<open>01000005\<close> on a fresh object the range is 5 to 1005: it starts at
  the failing number, which it covers, and spans 1001 numbers.
\<close>

theorem record_failure_range_counterexample:
  "skip_ranges (snd (record_failure_times 100 ''t'' WriteOk ''01000005'' ''not_found''
       (CrawlerSkipManager None None None))) ''01''
     = Some [\<lparr>sr_start = 5, sr_end = 1005, sr_reason = ''consecutive_failures'', sr_added_at = ''t''\<rparr>]
   \<and> covers \<lparr>sr_start = 5, sr_end = 1005, sr_reason = ''consecutive_failures'', sr_added_at = ''t''\<rparr> 5
   \<and> length [5 .. 1005 :: int] = 1001"
proof -
  have p: "py_int (drop 2 ''01000005'') = Inr 5" by (simp add: py_int_000005)
  note b = record_failure_times_100 [OF p refl fresh_manager(1,2), of "''t''" WriteOk "''not_found''"]
  show ?thesis
    by (simp only: b) (simp add: counted_simps save_skip_ranges_def covers_def promoted_range_def
        ranges_of_def fresh_manager)
qed

subsection \<open>\<open>set_council_limit\<close>\<close>

text \<open>
  Claim C6. The recorded limit of a council never rises. A call with a value greater than
  or equal to the recorded limit changes nothing, neither in the object nor in the file.
  A call with a smaller value, or for a council without a limit, records the value and
  writes the file (when the write succeeds, the file holds the new limits). From a
  council whose limit is absent or at least 500: setting 500 gives 500, setting 800
  afterwards changes nothing, setting 200 afterwards gives 200.
\<close>

theorem set_council_limit_monotone:
  "(council_limits s cc = Some l \<and> l \<le> v \<longrightarrow> set_council_limit io cc v s = (Inr (), s))
   \<and> ((council_limits s cc = None \<or> (council_limits s cc = Some l \<and> v < l)) \<longrightarrow>
        council_limits (snd (set_council_limit io cc v s)) = (council_limits s)(cc \<mapsto> v)
        \<and> (io = WriteOk \<longrightarrow> fst (set_council_limit io cc v s) = Inr ()
               \<and> file_council_limits (snd (set_council_limit io cc v s)) = Some ((council_limits s)(cc \<mapsto> v))))
   \<and> (council_limits s cc = None \<or> (council_limits s cc = Some l \<and> 500 \<le> l) \<longrightarrow>
        council_limits (snd (set_council_limit io cc 500 s)) cc = Some 500
        \<and> set_council_limit io2 cc 800 (snd (set_council_limit io cc 500 s))
            = (Inr (), snd (set_council_limit io cc 500 s))
        \<and> council_limits (snd (set_council_limit io3 cc 200
             (snd (set_council_limit io2 cc 800 (snd (set_council_limit io cc 500 s)))))) cc = Some 200)"
  by (cases io; cases io2; cases io3)
     (auto simp: set_council_limit_def save_council_limits_def)

theorem set_council_limit_monotone_witness:
  "council_limits (snd (set_council_limit WriteOk ''17'' 500 (CrawlerSkipManager None None None))) ''17'' = Some 500
   \<and> set_council_limit WriteOk ''17'' 800 (snd (set_council_limit WriteOk ''17'' 500 (CrawlerSkipManager None None None)))
       = (Inr (), snd (set_council_limit WriteOk ''17'' 500 (CrawlerSkipManager None None None)))
   \<and> council_limits (snd (set_council_limit WriteOk ''17'' 200
        (snd (set_council_limit WriteOk ''17'' 800
          (snd (set_council_limit WriteOk ''17'' 500 (CrawlerSkipManager None None None))))))) ''17'' = Some 200"
proof -
  have h: "council_limits (CrawlerSkipManager None None None) ''17'' = None
      \<or> (council_limits (CrawlerSkipManager None None None) ''17'' = Some 500 \<and> (500::int) \<le> 500)"
    by (simp add: fresh_manager)
  from set_council_limit_monotone [of "CrawlerSkipManager None None None" "''17''" 500 800 WriteOk WriteOk WriteOk] h
  show ?thesis by blast
qed

subsection \<open>A failed write during the promotion\<close>

lemma save_all_ok:
  "save_all WriteOk WriteOk WriteOk s = (Inr (), s\<lparr>file_skip_ranges := Some (skip_ranges s),
      file_council_limits := Some (council_limits s),
      file_invalid_patterns := Some (invalid_patterns s)\<rparr>)"
  by (simp add: save_all_def save_skip_ranges_def save_council_limits_def save_invalid_patterns_def)

lemma save_skip_ranges_fails:
  "io \<noteq> WriteOk \<Longrightarrow> fst (save_skip_ranges io s) = Inl OSError
     \<and> skip_ranges (snd (save_skip_ranges io s)) = skip_ranges s
     \<and> invalid_patterns (snd (save_skip_ranges io s)) = invalid_patterns s"
  by (cases io) (simp_all add: save_skip_ranges_def)

text \<open>
  Claim C8 says that \<^verbatim>\<open>record_failure\<close> returns normally when the write of the
  promotion fails. After 99 failures of \<open>01000005\<close> on a fresh object, the 100th call with
  a failing write raises \<^verbatim>\<open>OSError\<close>: neither \<^verbatim>\<open>record_failure\<close> nor
  \<^verbatim>\<open>add_skip_range\<close> nor \<^verbatim>\<open>_save_skip_ranges\<close> has a handler.
\<close>

theorem record_failure_write_error_counterexample:
  "fst (record_failure ''t'' WriteFailsAfterOpen ''01000005'' ''not_found''
         (snd (record_failure_times 99 ''t'' WriteFailsAfterOpen ''01000005'' ''not_found''
                 (CrawlerSkipManager None None None)))) = Inl OSError"
proof -
  have p: "py_int (drop 2 ''01000005'') = Inr 5" by (simp add: py_int_000005)
  note b = record_failure_times_100 [OF p refl fresh_manager(1,2), of "''t''" WriteFailsAfterOpen "''not_found''"]
  have "(100::nat) = Suc 99" by simp
  then have "record_failure_times 100 ''t'' WriteFailsAfterOpen ''01000005'' ''not_found'' (CrawlerSkipManager None None None)
      = record_failure ''t'' WriteFailsAfterOpen ''01000005'' ''not_found''
         (snd (record_failure_times 99 ''t'' WriteFailsAfterOpen ''01000005'' ''not_found'' (CrawlerSkipManager None None None)))"
    using record_failure_times_99 [OF p refl fresh_manager(1,2), of "''t''" WriteFailsAfterOpen "''not_found''"]
    by (simp only: record_failure_times_snoc) simp
  with b show ?thesis by (simp add: save_skip_ranges_def)
qed

text \<open>
  Claim C8, amended. When the counter reaches the threshold and the write fails, before or
  after the file was opened, \<^verbatim>\<open>record_failure\<close> raises the error of the write to its
  caller. The object keeps what was assigned before: the list of the council contains the
  promoted range, and the registration number is in the invalid set. A later
  \<^verbatim>\<open>save_all\<close> whose writes succeed returns normally and writes the skip ranges, the new
  range included.
\<close>

theorem record_failure_write_error:
  assumes "py_int (drop 2 rn) = Inr n"
    and "failure_threshold s \<le> failure_count s (failure_key (take 2 rn) n) + 1"
    and "io \<noteq> WriteOk"
  shows "fst (record_failure a io rn et s) = Inl OSError
    \<and> skip_ranges (snd (record_failure a io rn et s)) (take 2 rn)
        = Some (ranges_of s (take 2 rn) @ [promoted_range a n])
    \<and> rn \<in> invalid_patterns (snd (record_failure a io rn et s))
    \<and> fst (save_all WriteOk WriteOk WriteOk (snd (record_failure a io rn et s))) = Inr ()
    \<and> file_skip_ranges (snd (save_all WriteOk WriteOk WriteOk (snd (record_failure a io rn et s))))
        = Some (skip_ranges (snd (record_failure a io rn et s)))"
  by (simp only: record_failure_at [OF assms(1) refl assms(2)] save_all_ok
        save_skip_ranges_fails [OF assms(3)])
     (simp add: counted_simps)

theorem record_failure_write_error_witness:
  "fst (record_failure ''t'' WriteFailsAfterOpen ''01000005'' ''not_found''
         ((CrawlerSkipManager None None None)\<lparr>failure_threshold := 1\<rparr>)) = Inl OSError
   \<and> skip_ranges (snd (record_failure ''t'' WriteFailsAfterOpen ''01000005'' ''not_found''
         ((CrawlerSkipManager None None None)\<lparr>failure_threshold := 1\<rparr>))) ''01''
       = Some [\<lparr>sr_start = 5, sr_end = 1005, sr_reason = ''consecutive_failures'', sr_added_at = ''t''\<rparr>]"
  using record_failure_write_error [of "''01000005''" 5 "(CrawlerSkipManager None None None)\<lparr>failure_threshold := 1\<rparr>" WriteFailsAfterOpen "''t''" "''not_found''"]
  by (simp add: py_int_000005 ranges_of_def promoted_range_def failure_count_def CrawlerSkipManager_def)

section \<open>Properties of the single-probe crawler\<close>

subsection \<open>A skipped registration number\<close>

lemma crawl_registration_number_skipped:
  "should_skip s rn = Inr True \<Longrightarrow> crawl_registration_number env rn s = (Inr Skipped, s)"
  by (simp add: crawl_registration_number_def)

lemma council_step_skipped:
  assumes "should_skip (skip_manager st) (cc @ format_0d 6 (cur_student_number st)) = Inr True"
  shows "council_step env cc st =
     Inr (st\<lparr>cur_consecutive_failures := cur_consecutive_failures st + 1,
             total_failed := total_failed st + 1,
             total_processed := total_processed st + 1,
             cur_student_number := cur_student_number st + 1\<rparr>)"
  using crawl_registration_number_skipped [OF assms, of env]
  by (simp add: council_step_def on_falsy_def)

lemma py_int_000001: "py_int ''000001'' = Inr 1"
  by code_simp

text \<open>
  Claim C1 says that, in the single-probe loop, a registration number marked by
  \<open>should_skip\<close> advances the student number without counting as a failure or a success.
  In the source \<^verbatim>\<open>crawl_registration_number\<close> returns \<^verbatim>\<open>False\<close> for it, and the loop
  tests \<^verbatim>\<open>if result:\<close>, so the \<^verbatim>\<open>else\<close> branch runs. With \<open>01000001\<close> in the invalid
  set, the first iteration for council \<open>01\<close> calls no scraper, and both the consecutive
  failures and the failed total go from 0 to 1; \<open>total_skipped\<close> stays 0.
\<close>

theorem council_step_counts_skipped_as_failure:
  "crawl_registration_number \<lparr>scrape = \<lambda>rn attempt. NotFound, disk_write = WriteOk, added_at = ''t''\<rparr>
      ''01000001'' (CrawlerSkipManager None None (Some {''01000001''}))
     = (Inr (Skipped :: unit crawl_result), CrawlerSkipManager None None (Some {''01000001''}))
   \<and> council_step \<lparr>scrape = \<lambda>rn attempt. NotFound, disk_write = WriteOk, added_at = ''t''\<rparr> ''01''
      (main_init (CrawlerSkipManager None None (Some {''01000001''})) (ResultsSaver :: unit results_saver))
     = Inr ((main_init (CrawlerSkipManager None None (Some {''01000001''})) ResultsSaver)
             \<lparr>cur_consecutive_failures := 1, total_failed := 1, total_processed := 1,
              cur_student_number := 2\<rparr>)"
proof -
  let ?sm = "CrawlerSkipManager None None (Some {''01000001''})"
  have f: "format_0d 6 1 = ''000001''" by (simp add: fmt_eval)
  have s: "should_skip ?sm ''01000001'' = Inr True"
    by (simp add: should_skip_def py_int_000001 CrawlerSkipManager_def)
  have "should_skip (skip_manager (main_init ?sm (ResultsSaver :: unit results_saver)))
          (''01'' @ format_0d 6 (cur_student_number (main_init ?sm (ResultsSaver :: unit results_saver)))) = Inr True"
    using s f by (simp add: main_init_def)
  from council_step_skipped [OF this] crawl_registration_number_skipped [OF s]
  show ?thesis by (simp add: main_init_def)
qed

subsection \<open>The success rate of the final report\<close>





lemma results_saver_update_total_skipped:
  "total_skipped (st\<lparr>results_saver := rs\<rparr>) = total_skipped st"
  by simp









section \<open>Properties of the batched crawler\<close>

lemma valid_numbers_all_skipped:
  "\<forall>num\<in>set nums. should_skip s num = Inr True \<Longrightarrow> valid_numbers_of s nums = Inr []"
  by (induction nums) simp_all

lemma valid_numbers_none_skipped:
  "\<forall>num\<in>set nums. should_skip s num = Inr False \<Longrightarrow> valid_numbers_of s nums = Inr nums"
  by (induction nums) simp_all

lemma crawl_batch_api_all_skipped:
  assumes "\<forall>num\<in>set nums. should_skip (ac_skip_manager c) num = Inr True"
  shows "crawl_batch_api env nums c = (Inr [], c)"
  using valid_numbers_all_skipped [OF assms] by (simp add: crawl_batch_api_def)

lemma create_batch_length:
  "failures < 1000 \<Longrightarrow> length (fst (create_batch cc failures n k)) = k
     \<and> snd (create_batch cc failures n k) = n + int k"
  by (induction k arbitrary: n) (simp_all add: split_beta)

lemma create_batch_eq:
  "failures < 1000 \<Longrightarrow>
   fst (create_batch cc failures n k) = map (\<lambda>i. cc @ format_0d 6 (n + int i)) [0..<k]"
proof (induction k arbitrary: n)
  case 0
  then show ?case by simp
next
  case (Suc k)
  have "map (\<lambda>i. cc @ format_0d 6 (n + int i)) [0..<Suc k]
      = (cc @ format_0d 6 n) # map (\<lambda>i. cc @ format_0d 6 (n + 1 + int i)) [0..<k]"
    by (simp add: upt_conv_Cons map_Suc_upt [symmetric] add.assoc del: upt_Suc)
  with Suc.IH [OF Suc.prems, of "n + 1"] Suc.prems show ?case
    by (simp add: split_beta del: upt_Suc)
qed

lemma record_failure_ok:
  "py_int (drop 2 rn) = Inr n \<Longrightarrow> fst (record_failure a WriteOk rn et s) = Inr ()"
  by (simp add: record_failure_def Let_def add_skip_range_def save_skip_ranges_def)

lemma should_skip_py_int:
  "should_skip s rn = Inr b \<Longrightarrow> \<exists>n. py_int (drop 2 rn) = Inr n"
  by (auto simp: should_skip_def Let_def split: sum.splits)

lemma record_results_all_missed:
  "api_write env = WriteOk \<Longrightarrow> \<forall>num\<in>set nums. \<exists>n. py_int (drop 2 num) = Inr n \<Longrightarrow>
   fst (record_results env {} nums s) = Inr ()"
proof (induction nums arbitrary: s)
  case Nil
  then show ?case by simp
next
  case (Cons num nums)
  then obtain n where n: "py_int (drop 2 num) = Inr n" by auto
  obtain r s' where rf: "record_failure (api_added_at env) (api_write env) num ''not_found'' s = (r, s')"
    by fastforce
  with record_failure_ok [OF n, of "api_added_at env" "''not_found''" s] Cons.prems(1)
  have "r = Inr ()" by simp
  with rf Cons show ?case by simp
qed

lemma auto_save_simps:
  "st_total_failed (auto_save c) = st_total_failed c"
  "st_total_processed (auto_save c) = st_total_processed c"
  "fetch_log (auto_save c) = fetch_log c"
  "ac_skip_manager (auto_save c) = ac_skip_manager c"
  by (simp_all add: auto_save_def)

lemma fast_step_empty_results:
  assumes "f_consecutive_failures fs < 1000"
    and "crawl_batch_api env
           (fst (create_batch cc (f_consecutive_failures fs) (f_student_number fs) fast_batch_size))
           (crawler fs) = (Inr [], c')"
  shows "fast_step env cc fs =
     Inr (Continue (fs\<lparr>f_student_number := f_student_number fs + 100,
                       f_consecutive_failures := f_consecutive_failures fs + 100,
                       crawler := auto_save (c'\<lparr>st_total_failed := st_total_failed c' + 100,
                                               st_total_processed := st_total_processed c' + 100\<rparr>)\<rparr>))"
proof -
  let ?cb = "create_batch cc (f_consecutive_failures fs) (f_student_number fs) fast_batch_size"
  from create_batch_length [OF assms(1), of cc "f_student_number fs" fast_batch_size]
  have l: "length (fst ?cb) = 100" and n: "snd ?cb = f_student_number fs + 100"
    by (simp_all add: fast_batch_size_def)
  then have ne: "fst ?cb \<noteq> []" by auto
  show ?thesis
    using assms(2) l n ne
    by (simp add: fast_step_def split_beta Let_def)
qed

text \<open>
  Claim C10. In an iteration of the batched loop (fewer than 1000 consecutive failures, so
  the batch has its full 100 numbers) where \<open>should_skip\<close> marks every number of the
  batch, \<^verbatim>\<open>crawl_batch_api\<close> returns the empty list and leaves the object as it was: the
  backend is not contacted and the skip manager is not changed. The iteration then adds
  100, the batch size, to the consecutive failures, to the failed total and to the
  processed total. An iteration from the same counters in which no number is skipped, the
  backend is asked and finds none of them, adds the same 100 to the consecutive failures
  and to the failed total.
\<close>

theorem all_skipped_batch_counted_as_failures:
  assumes "f_consecutive_failures fs < 1000"
    and "batch = fst (create_batch cc (f_consecutive_failures fs) (f_student_number fs) fast_batch_size)"
    and "\<forall>num\<in>set batch. should_skip (ac_skip_manager (crawler fs)) num = Inr True"
  shows "length batch = 100
    \<and> crawl_batch_api env batch (crawler fs) = (Inr [], crawler fs)
    \<and> fast_step env cc fs =
        Inr (Continue (fs\<lparr>f_student_number := f_student_number fs + 100,
                          f_consecutive_failures := f_consecutive_failures fs + 100,
                          crawler := auto_save ((crawler fs)
                                       \<lparr>st_total_failed := st_total_failed (crawler fs) + 100,
                                        st_total_processed := st_total_processed (crawler fs) + 100\<rparr>)\<rparr>))
    \<and> (api_scraper (crawler fs') \<and> api_write env = WriteOk \<and> fetch_batch env batch = Inr []
         \<and> (\<forall>num\<in>set batch. should_skip (ac_skip_manager (crawler fs')) num = Inr False)
         \<and> f_consecutive_failures fs' = f_consecutive_failures fs
         \<and> f_student_number fs' = f_student_number fs
       \<longrightarrow> (\<exists>fs''. fast_step env cc fs' = Inr (Continue fs'')
              \<and> f_consecutive_failures fs'' = f_consecutive_failures fs + 100
              \<and> st_total_failed (crawler fs'') = st_total_failed (crawler fs') + 100
              \<and> fetch_log (crawler fs'') = fetch_log (crawler fs') @ [batch]))"
proof (intro conjI impI)
  show len: "length batch = 100"
    using create_batch_length [OF assms(1), of cc "f_student_number fs" fast_batch_size] assms(2)
    by (simp add: fast_batch_size_def)
  show api: "crawl_batch_api env batch (crawler fs) = (Inr [], crawler fs)"
    using assms(3) by (rule crawl_batch_api_all_skipped)
  show "fast_step env cc fs =
        Inr (Continue (fs\<lparr>f_student_number := f_student_number fs + 100,
                          f_consecutive_failures := f_consecutive_failures fs + 100,
                          crawler := auto_save ((crawler fs)
                                       \<lparr>st_total_failed := st_total_failed (crawler fs) + 100,
                                        st_total_processed := st_total_processed (crawler fs) + 100\<rparr>)\<rparr>))"
    using fast_step_empty_results [OF assms(1), of env cc "crawler fs"] api assms(2) by simp
next
  assume a: "api_scraper (crawler fs') \<and> api_write env = WriteOk \<and> fetch_batch env batch = Inr []
         \<and> (\<forall>num\<in>set batch. should_skip (ac_skip_manager (crawler fs')) num = Inr False)
         \<and> f_consecutive_failures fs' = f_consecutive_failures fs
         \<and> f_student_number fs' = f_student_number fs"
  have len: "length batch = 100"
    using create_batch_length [OF assms(1), of cc "f_student_number fs" fast_batch_size] assms(2)
    by (simp add: fast_batch_size_def)
  then have ne: "batch \<noteq> []" by auto
  have v: "valid_numbers_of (ac_skip_manager (crawler fs')) batch = Inr batch"
    using a by (intro valid_numbers_none_skipped) simp
  have p: "\<forall>num\<in>set batch. \<exists>n. py_int (drop 2 num) = Inr n"
    using a should_skip_py_int by blast
  obtain r s' where rr: "record_results env {} batch (ac_skip_manager (crawler fs')) = (r, s')"
    by fastforce
  with record_results_all_missed [OF _ p, of env "ac_skip_manager (crawler fs')"] a
  have r: "r = Inr ()" by simp
  let ?c' = "(crawler fs')\<lparr>fetch_log := fetch_log (crawler fs') @ [batch], ac_skip_manager := s'\<rparr>"
  have api: "crawl_batch_api env batch (crawler fs') = (Inr [], ?c')"
    using a v ne rr r by (simp add: crawl_batch_api_def)
  have f: "f_consecutive_failures fs' < 1000" using a assms(1) by simp
  have b: "batch = fst (create_batch cc (f_consecutive_failures fs') (f_student_number fs') fast_batch_size)"
    using a assms(2) by simp
  from fast_step_empty_results [OF f, of env cc ?c'] api b a
  show "\<exists>fs''. fast_step env cc fs' = Inr (Continue fs'')
              \<and> f_consecutive_failures fs'' = f_consecutive_failures fs + 100
              \<and> st_total_failed (crawler fs'') = st_total_failed (crawler fs') + 100
              \<and> fetch_log (crawler fs'') = fetch_log (crawler fs') @ [batch]"
    by (simp add: auto_save_simps)
qed

lemma should_skip_above_limit:
  assumes "length cc = 2" and "council_limits s cc = Some limit" and "limit < n" and "0 \<le> n"
  shows "should_skip s (cc @ format_0d 6 n) = Inr True"
proof -
  have "py_int (drop 2 (cc @ format_0d 6 n)) = Inr n"
    using assms(1,4) by (simp add: py_int_format_0d)
  from should_skip_eq [OF this, of s] assms show ?thesis by simp
qed

theorem all_skipped_batch_counted_as_failures_witness:
  "fast_step \<lparr>fetch_batch = \<lambda>nums. Inr ([] :: unit api_result list), api_write = WriteOk, api_added_at = ''t''\<rparr> ''48''
     \<lparr>crawler = \<lparr>ac_skip_manager = CrawlerSkipManager None (Some [''48'' \<mapsto> 0]) None,
                 ac_results_saver = ResultsSaver, api_scraper = True,
                 st_total_processed = 0, st_total_successful = 0, st_total_failed = 0,
                 st_last_save_count = 0, fetch_log = []\<rparr>,
      f_consecutive_failures = 0, f_student_number = 1, f_council_successful = 0\<rparr>
   = Inr (Continue
     \<lparr>crawler = \<lparr>ac_skip_manager = CrawlerSkipManager None (Some [''48'' \<mapsto> 0]) None,
                 ac_results_saver = ResultsSaver, api_scraper = True,
                 st_total_processed = 100, st_total_successful = 0, st_total_failed = 100,
                 st_last_save_count = 0, fetch_log = []\<rparr>,
      f_consecutive_failures = 100, f_student_number = 101, f_council_successful = 0\<rparr>)"
proof -
  let ?sm = "CrawlerSkipManager None (Some [''48'' \<mapsto> 0]) None"
  let ?c = "\<lparr>ac_skip_manager = ?sm,
             ac_results_saver = (ResultsSaver :: unit api_result results_saver), api_scraper = True,
             st_total_processed = 0, st_total_successful = 0, st_total_failed = 0,
             st_last_save_count = 0, fetch_log = []\<rparr>"
  let ?fs = "\<lparr>crawler = ?c, f_consecutive_failures = 0, f_student_number = 1, f_council_successful = 0\<rparr>"
  let ?env = "\<lparr>fetch_batch = \<lambda>nums. Inr ([] :: unit api_result list), api_write = WriteOk, api_added_at = ''t''\<rparr>"
  let ?batch = "fst (create_batch ''48'' (f_consecutive_failures ?fs) (f_student_number ?fs) fast_batch_size)"
  have h1: "f_consecutive_failures ?fs < 1000" by simp
  have lim: "council_limits ?sm ''48'' = Some 0" by (simp add: CrawlerSkipManager_def)
  have "?batch = map (\<lambda>i. ''48'' @ format_0d 6 (1 + int i)) [0..<fast_batch_size]"
    using create_batch_eq [of 0 "''48''" 1 fast_batch_size] by simp
  then have h3: "\<forall>num\<in>set ?batch. should_skip (ac_skip_manager (crawler ?fs)) num = Inr True"
    using should_skip_above_limit [OF _ lim] by auto
  from all_skipped_batch_counted_as_failures [OF h1 refl h3, of ?env ?fs]
  show ?thesis by (simp add: auto_save_def)
qed

end
